theory Spec2Isabelle
  imports Main "HOL-Library.AList" "HOL-Library.Sublist"
begin

section \<open>The environment of \<^verbatim>\<open>convertaudio.py\<close>\<close>

text \<open>
  The script is a sequence of calls into the operating system: it starts external
  programs, removes and copies files, creates a directory, lists a directory and
  prints. The model threads a \<open>world\<close> through every function of the script. The world
  holds the file system and the trace of every effect the script has asked for, in
  order. The external programs are a parameter: a function from the argument vector
  and the file system to the exit status and the bytes the program wrote to its
  standard output and standard error, together with the file system the program left
  behind, or \<open>None\<close> when the executable cannot be started (Python raises
  \<^verbatim>\<open>FileNotFoundError\<close> then). Strings are byte strings; text is held in UTF-8.
\<close>

type_synonym path = string

datatype node = RegFile string | Directory

type_synonym filesystem = "(path \<times> node) list"

datatype error =
  FileNotFoundError | IsADirectoryError | NotADirectoryError | FileExistsError | SameFileError
  | UnicodeDecodeError

record completed_process =
  returncode :: int
  stdout :: string
  stderr :: string

type_synonym tools = "string list \<Rightarrow> filesystem \<Rightarrow> (completed_process \<times> filesystem) option"

text \<open>
  An event records the call the script makes. A copy records its two arguments and,
  third, the file it writes: the destination, or the file of the source's name inside
  the destination when that is a directory.
\<close>

datatype event =
  Run "string list" | Print string | Remove path | Copy path path path | Makedirs path

record world =
  fs :: filesystem
  trace :: "event list"

record dir_entry =
  name :: string
  path :: path
  is_file :: bool

subsection \<open>Strings and paths (\<^verbatim>\<open>str\<close>, \<^verbatim>\<open>posixpath\<close>)\<close>

definition startswith :: "string \<Rightarrow> string \<Rightarrow> bool" where
  "startswith s p = prefix p s"

definition endswith :: "string \<Rightarrow> string \<Rightarrow> bool" where
  "endswith s p = suffix p s"

text \<open>\<^verbatim>\<open>s.rfind(c)\<close>: the highest index of \<open>c\<close> in \<open>s\<close>, or \<open>-1\<close>.\<close>

definition rfind :: "string \<Rightarrow> char \<Rightarrow> int" where
  "rfind s c =
     (if c \<in> set s then int (length s) - 1 - int (length (takeWhile (\<lambda>x. x \<noteq> c) (rev s)))
      else - 1)"

text \<open>\<^verbatim>\<open>posixpath.join(a, b)\<close> for two arguments.\<close>

definition join :: "path \<Rightarrow> path \<Rightarrow> path" where
  "join a b =
     (if startswith b ''/'' then b
      else if a = [] \<or> endswith a ''/'' then a @ b
      else a @ ''/'' @ b)"

text \<open>
  \<^verbatim>\<open>posixpath.splitext(p)\<close>, that is \<^verbatim>\<open>genericpath._splitext(p, '/', None, '.')\<close>:
  the extension starts at the last dot, provided that dot comes after the last
  separator and some character between the two is not a dot.
\<close>

definition splitext :: "string \<Rightarrow> string \<times> string" where
  "splitext p =
     (let sepIndex = rfind p CHR ''/'';
          dotIndex = rfind p CHR ''.''
      in if dotIndex > sepIndex \<and>
            list_ex (\<lambda>i. p ! i \<noteq> CHR ''.'') [nat (sepIndex + 1)..<nat dotIndex]
         then (take (nat dotIndex) p, drop (nat dotIndex) p)
         else (p, []))"

text \<open>\<^verbatim>\<open>posixpath.split\<close>, \<^verbatim>\<open>dirname\<close> and \<^verbatim>\<open>basename\<close>.\<close>

definition split_path :: "path \<Rightarrow> path \<times> path" where
  "split_path p =
     (let i = nat (rfind p CHR ''/'' + 1);
          head = take i p;
          tail = drop i p
      in (if head \<noteq> [] \<and> \<not> list_all (\<lambda>c. c = CHR ''/'') head
          then rev (dropWhile (\<lambda>c. c = CHR ''/'') (rev head)) else head, tail))"

definition dirname :: "path \<Rightarrow> path" where
  "dirname p = fst (split_path p)"

definition basename :: "path \<Rightarrow> path" where
  "basename p = snd (split_path p)"

subsection \<open>The file system (\<^verbatim>\<open>os\<close>, \<^verbatim>\<open>shutil\<close>)\<close>

text \<open>
  Paths in the file system are absolute and normalised, as \<^verbatim>\<open>os.path.abspath\<close>
  returns them. The root directory always exists. Links, permissions and special
  files are outside the model.
\<close>

definition lookup :: "filesystem \<Rightarrow> path \<Rightarrow> node option" where
  "lookup f p = (if p = ''/'' then Some Directory else map_of f p)"

definition isdir :: "filesystem \<Rightarrow> path \<Rightarrow> bool" where
  "isdir f p = (lookup f p = Some Directory)"

definition print :: "string \<Rightarrow> world \<Rightarrow> world" where
  "print s w = w\<lparr>trace := trace w @ [Print s]\<rparr>"

text \<open>
  With \<^verbatim>\<open>text=True\<close> the captured bytes are decoded strictly in the encoding of the
  locale, taken to be UTF-8, and every line ending becomes a line feed. Bytes that are
  not well-formed UTF-8 (a stray continuation or lead byte, an overlong form, a
  surrogate, a value above U+10FFFF) do not decode.
\<close>

definition byte_in :: "char \<Rightarrow> nat \<Rightarrow> nat \<Rightarrow> bool" where
  "byte_in c lo hi = (lo \<le> of_char c \<and> (of_char c :: nat) \<le> hi)"

fun utf8 :: "string \<Rightarrow> bool" where
  "utf8 [] = True"
| "utf8 (a # s) =
     (if byte_in a 0x00 0x7F then utf8 s
      else if byte_in a 0xC2 0xDF then
        (case s of b # s1 \<Rightarrow> byte_in b 0x80 0xBF \<and> utf8 s1 | _ \<Rightarrow> False)
      else if byte_in a 0xE0 0xEF then
        (case s of
           b # c # s2 \<Rightarrow>
             byte_in b (if a = CHR 0xE0 then 0xA0 else 0x80) (if a = CHR 0xED then 0x9F else 0xBF)
             \<and> byte_in c 0x80 0xBF \<and> utf8 s2
         | _ \<Rightarrow> False)
      else if byte_in a 0xF0 0xF4 then
        (case s of
           b # c # d # s3 \<Rightarrow>
             byte_in b (if a = CHR 0xF0 then 0x90 else 0x80) (if a = CHR 0xF4 then 0x8F else 0xBF)
             \<and> byte_in c 0x80 0xBF \<and> byte_in d 0x80 0xBF \<and> utf8 s3
         | _ \<Rightarrow> False)
      else False)"

fun universal_newlines :: "string \<Rightarrow> string" where
  "universal_newlines [] = []"
| "universal_newlines [c] = [if c = CHR 0x0D then CHR 0x0A else c]"
| "universal_newlines (c # d # s) =
     (if c = CHR 0x0D \<and> d = CHR 0x0A then CHR 0x0A # universal_newlines s
      else (if c = CHR 0x0D then CHR 0x0A else c) # universal_newlines (d # s))"

definition decode_output :: "completed_process \<Rightarrow> completed_process option" where
  "decode_output r =
     (if utf8 (stdout r) \<and> utf8 (stderr r)
      then Some (r\<lparr>stdout := universal_newlines (stdout r), stderr := universal_newlines (stderr r)\<rparr>)
      else None)"

text \<open>
  \<^verbatim>\<open>subprocess.run(argv, capture_output=True, text=True)\<close>: the attempt is recorded,
  then the program cannot be started, or it runs on the file system and its output
  does not decode (Python raises \<^verbatim>\<open>UnicodeDecodeError\<close> after the program has
  finished), or the call returns the completed process with the decoded text.
\<close>

definition subprocess_run :: "tools \<Rightarrow> string list \<Rightarrow> world \<Rightarrow> (error + completed_process) \<times> world" where
  "subprocess_run t argv w =
     (case t argv (fs w) of
        None \<Rightarrow> (Inl FileNotFoundError, w\<lparr>trace := trace w @ [Run argv]\<rparr>)
      | Some (raw, f') \<Rightarrow>
          (case decode_output raw of
             None \<Rightarrow> (Inl UnicodeDecodeError, w\<lparr>fs := f', trace := trace w @ [Run argv]\<rparr>)
           | Some r \<Rightarrow> (Inr r, w\<lparr>fs := f', trace := trace w @ [Run argv]\<rparr>)))"

text \<open>
  What \<^verbatim>\<open>subprocess.run\<close> returns for a command on a file system, with the file
  system the program left, when it returns: \<open>None\<close> stands for both exceptions.
\<close>

definition returned :: "tools \<Rightarrow> string list \<Rightarrow> filesystem \<Rightarrow> (completed_process \<times> filesystem) option" where
  "returned t argv f =
     (case t argv f of
        None \<Rightarrow> None
      | Some (raw, f') \<Rightarrow> (case decode_output raw of None \<Rightarrow> None | Some r \<Rightarrow> Some (r, f')))"

text \<open>\<^verbatim>\<open>os.remove(p)\<close>.\<close>

definition os_remove :: "path \<Rightarrow> world \<Rightarrow> (error + unit) \<times> world" where
  "os_remove p w =
     (let w' = w\<lparr>trace := trace w @ [Remove p]\<rparr>
      in case lookup (fs w) p of
           None \<Rightarrow> (Inl FileNotFoundError, w')
         | Some Directory \<Rightarrow> (Inl IsADirectoryError, w')
         | Some (RegFile c) \<Rightarrow> (Inr (), w'\<lparr>fs := AList.delete p (fs w)\<rparr>))"

text \<open>
  \<^verbatim>\<open>shutil.copy(src, dst)\<close>: a destination that is a directory receives the file
  under the source's base name; source and destination must differ; the source must
  be a regular file; the destination's directory must exist.
\<close>

definition shutil_copy :: "path \<Rightarrow> path \<Rightarrow> world \<Rightarrow> (error + unit) \<times> world" where
  "shutil_copy src dst w =
     (let dst' = (if isdir (fs w) dst then join dst (basename src) else dst);
          w' = w\<lparr>trace := trace w @ [Copy src dst dst']\<rparr>
      in if src = dst' \<and> lookup (fs w) src \<noteq> None then (Inl SameFileError, w')
         else case lookup (fs w) src of
           None \<Rightarrow> (Inl FileNotFoundError, w')
         | Some Directory \<Rightarrow> (Inl IsADirectoryError, w')
         | Some (RegFile c) \<Rightarrow>
             (case lookup (fs w) dst' of
                Some Directory \<Rightarrow> (Inl IsADirectoryError, w')
              | _ \<Rightarrow>
                (case lookup (fs w) (dirname dst') of
                   None \<Rightarrow> (Inl FileNotFoundError, w')
                 | Some (RegFile _) \<Rightarrow> (Inl NotADirectoryError, w')
                 | Some Directory \<Rightarrow>
                     (Inr (), w'\<lparr>fs := AList.update dst' (RegFile c) (fs w)\<rparr>))))"

text \<open>
  \<^verbatim>\<open>os.makedirs(p)\<close>: fails when \<open>p\<close> exists or when one of the directories above
  it is a regular file; otherwise creates \<open>p\<close> and every missing directory above it.
\<close>

definition ancestors :: "path \<Rightarrow> path list" where
  "ancestors p = [take i p. i \<leftarrow> [1..<length p], p ! i = CHR ''/'']"

definition os_makedirs :: "path \<Rightarrow> world \<Rightarrow> (error + unit) \<times> world" where
  "os_makedirs p w =
     (let w' = w\<lparr>trace := trace w @ [Makedirs p]\<rparr>
      in if lookup (fs w) p \<noteq> None then (Inl FileExistsError, w')
         else if list_ex (\<lambda>a. case lookup (fs w) a of Some (RegFile _) \<Rightarrow> True | _ \<Rightarrow> False)
                         (ancestors p)
           then (Inl NotADirectoryError, w')
         else (Inr (), w'\<lparr>fs := fs w @ [(a, Directory). a \<leftarrow> ancestors p @ [p], lookup (fs w) a = None]\<rparr>))"

text \<open>
  \<^verbatim>\<open>os.scandir(folder)\<close>: the entries directly below \<open>folder\<close>, in the order the
  file system holds them, as they are when the directory is opened.
\<close>

definition child_name :: "path \<Rightarrow> path \<Rightarrow> string option" where
  "child_name folder p =
     (let d = (if endswith folder ''/'' then folder else folder @ ''/'')
      in if prefix d p \<and> drop (length d) p \<noteq> [] \<and> CHR ''/'' \<notin> set (drop (length d) p)
         then Some (drop (length d) p) else None)"

definition scandir :: "filesystem \<Rightarrow> path \<Rightarrow> error + dir_entry list" where
  "scandir f folder =
     (case lookup f folder of
        None \<Rightarrow> Inl FileNotFoundError
      | Some (RegFile _) \<Rightarrow> Inl NotADirectoryError
      | Some Directory \<Rightarrow>
          Inr (concat (map (\<lambda>(p, n).
                 case child_name folder p of
                   None \<Rightarrow> []
                 | Some nm \<Rightarrow> [\<lparr>name = nm, path = join folder nm,
                                 is_file = (case n of RegFile _ \<Rightarrow> True | Directory \<Rightarrow> False)\<rparr>])
               (AList.clearjunk f))))"

section \<open>The script\<close>

subsection \<open>\<^verbatim>\<open>convert_to_mp3\<close> (lines 23 to 38)\<close>

definition convert_to_mp3 :: "tools \<Rightarrow> path \<Rightarrow> path \<Rightarrow> world \<Rightarrow> (error + bool) \<times> world" where
  "convert_to_mp3 t temp_file output_file w =
     (case subprocess_run t [''lame'', ''-h'', ''-b'', ''128'', temp_file, output_file] w of
        (Inl e, w1) \<Rightarrow> (Inl e, w1)
      | (Inr result, w1) \<Rightarrow>
          if returncode result = 0 then
            (case os_remove temp_file w1 of
               (Inl e, w2) \<Rightarrow> (Inl e, w2)
             | (Inr _, w2) \<Rightarrow> (Inr True, print (''Successfully saved '' @ output_file) w2))
          else
            (Inr False,
             print (''Error while trying to encode '' @ temp_file @ '' to MP3: ''
                    @ stdout result @ stderr result) w1))"

subsection \<open>\<^verbatim>\<open>convert_audio\<close> (lines 40 to 69)\<close>

text \<open>The value \<^verbatim>\<open>convert_to_mp3\<close> returns is dropped, as in the source.\<close>

definition discard :: "(error + bool) \<times> world \<Rightarrow> (error + unit) \<times> world" where
  "discard r = (case r of (Inl e, w) \<Rightarrow> (Inl e, w) | (Inr _, w) \<Rightarrow> (Inr (), w))"

definition convert_audio :: "tools \<Rightarrow> path \<Rightarrow> path \<Rightarrow> world \<Rightarrow> (error + unit) \<times> world" where
  "convert_audio t input_file output_file w =
     (case subprocess_run t [''file'', ''-b'', input_file] w of
        (Inl e, w1) \<Rightarrow> (Inl e, w1)
      | (Inr sniffed, w1) \<Rightarrow>
         (let audio_type = stdout sniffed;
              temp_file = output_file @ ''.temp.wav''
          in if startswith audio_type ''Ogg data, Opus audio'' then
               (case subprocess_run t [''opusdec'', input_file, temp_file] w1 of
                  (Inl e, w2) \<Rightarrow> (Inl e, w2)
                | (Inr result, w2) \<Rightarrow>
                    if returncode result = 0 then discard (convert_to_mp3 t temp_file output_file w2)
                    else (Inr (), print (''Couldn't decode OPUS audio of '' @ input_file @ '': ''
                                         @ stdout result @ stderr result) w2))
             else if startswith audio_type ''Ogg data, Vorbis audio'' then
               (case subprocess_run t [''oggdec'', input_file, ''-o'', temp_file] w1 of
                  (Inl e, w2) \<Rightarrow> (Inl e, w2)
                | (Inr result, w2) \<Rightarrow>
                    if returncode result = 0 then discard (convert_to_mp3 t temp_file output_file w2)
                    else (Inr (), print (''Couldn't decode Ogg Vorbis audio of '' @ input_file @ '': ''
                                         @ stdout result @ stderr result) w2))
             else if startswith audio_type ''ISO Media, MPEG v4 system, 3GPP'' \<or>
                     startswith audio_type ''MPEG ADTS, AAC'' \<or>
                     startswith audio_type ''ISO Media, Apple iTunes ALAC/AAC-LC'' \<or>
                     startswith audio_type ''ISO Media, MP4 v2'' then
               (case subprocess_run t [''ffmpeg'', ''-y'', ''-i'', input_file, temp_file] w1 of
                  (Inl e, w2) \<Rightarrow> (Inl e, w2)
                | (Inr result, w2) \<Rightarrow>
                    if returncode result = 0 then discard (convert_to_mp3 t temp_file output_file w2)
                    else (Inr (), print (''Couldn't decode MP4 audio of '' @ input_file @ '': ''
                                         @ stdout result @ stderr result) w2))
             else if startswith audio_type ''MPEG ADTS, layer III'' then
               shutil_copy input_file output_file
                 (print (input_file @ '' is already in MP3 format: No converting necessary, copying into output folder.'') w1)
             else
               (Inr (), print (''Couldn't identify audio type '' @ [CHR 0x27] @ audio_type @ [CHR 0x27]
                               @ '' of '' @ input_file @ '', skipping'') w1)))"

subsection \<open>The entry point (lines 76 to 88)\<close>

definition extensions :: "string list" where
  "extensions = [''.ogg'', ''.m4a'', ''.opus'', ''.aac'', ''.mp4'']"

text \<open>The body of the loop over the directory entries (lines 83 to 88).\<close>

definition process_entry :: "tools \<Rightarrow> path \<Rightarrow> dir_entry \<Rightarrow> world \<Rightarrow> (error + unit) \<times> world" where
  "process_entry t mp3_folder entry w =
     (if \<not> startswith (name entry) ''.'' \<and> is_file entry then
        (case splitext (name entry) of
           (base_name, extension) \<Rightarrow>
             if extension \<in> set extensions then
               convert_audio t (path entry) (join mp3_folder (base_name @ ''.mp3'')) w
             else (Inr (), print (''Skipping '' @ name entry) w))
      else (Inr (), w))"

text \<open>The loop (line 82): an exception leaves it.\<close>

fun scan_loop :: "tools \<Rightarrow> path \<Rightarrow> dir_entry list \<Rightarrow> world \<Rightarrow> (error + unit) \<times> world" where
  "scan_loop t mp3_folder [] w = (Inr (), w)"
| "scan_loop t mp3_folder (entry # entries) w =
     (case process_entry t mp3_folder entry w of
        (Inl e, w') \<Rightarrow> (Inl e, w')
      | (Inr _, w') \<Rightarrow> scan_loop t mp3_folder entries w')"

text \<open>
  Lines 77 to 80: the output folder is computed, announced and created unless it is
  a directory already. The argument \<open>folder\<close> is the value of
  \<^verbatim>\<open>os.path.abspath(args.folder)\<close> (line 76).
\<close>

definition make_mp3_folder :: "path \<Rightarrow> world \<Rightarrow> (error + path) \<times> world" where
  "make_mp3_folder folder w =
     (let mp3_folder = join folder ''converted_to_mp3'';
          w1 = print (''Converting all audios in '' @ folder @ '': Saving MP3 files to '' @ mp3_folder) w
      in if \<not> isdir (fs w1) mp3_folder then
           (case os_makedirs mp3_folder w1 of
              (Inl e, w2) \<Rightarrow> (Inl e, w2)
            | (Inr _, w2) \<Rightarrow> (Inr mp3_folder, w2))
         else (Inr mp3_folder, w1))"

text \<open>Lines 76 to 88.\<close>

definition main :: "tools \<Rightarrow> path \<Rightarrow> world \<Rightarrow> (error + unit) \<times> world" where
  "main t folder w =
     (case make_mp3_folder folder w of
        (Inl e, w2) \<Rightarrow> (Inl e, w2)
      | (Inr mp3_folder, w2) \<Rightarrow>
          (case scandir (fs w2) folder of
             Inl e \<Rightarrow> (Inl e, w2)
           | Inr entries \<Rightarrow> scan_loop t mp3_folder entries w2))"

section \<open>Observing a run\<close>

text \<open>The events a run has added to the trace.\<close>

definition since :: "world \<Rightarrow> world \<Rightarrow> event list" where
  "since w w' = drop (length (trace w)) (trace w')"

text \<open>The commands started, in order.\<close>

fun runs :: "event list \<Rightarrow> string list list" where
  "runs [] = []"
| "runs (Run argv # es) = argv # runs es"
| "runs (_ # es) = runs es"

text \<open>
  The target of an effect: the output argument of a decoder or encoder command (its
  last), the file a copy writes, the path removed, the directory \<^verbatim>\<open>os.makedirs\<close> is
  called for.
\<close>

fun targets :: "event \<Rightarrow> path list" where
  "targets (Run argv) = (if argv = [] \<or> hd argv = ''file'' then [] else [last argv])"
| "targets (Print _) = []"
| "targets (Remove p) = [p]"
| "targets (Copy _ _ written) = [written]"
| "targets (Makedirs p) = [p]"


text \<open>What may follow the start of the encoder: the intermediate file is removed, a line is printed.\<close>

definition quiet :: "path \<Rightarrow> event \<Rightarrow> bool" where
  "quiet temp_file e = (case e of Print _ \<Rightarrow> True | Remove p \<Rightarrow> p = temp_file | _ \<Rightarrow> False)"

text \<open>
  The five branches of the dispatcher, and what shows in the events of a call that a
  branch was taken: its decoder was started, or a copy was asked for, or nothing
  happened besides sniffing and printing.
\<close>

datatype branch = OpusDecoding | VorbisDecoding | Mp4Decoding | DirectCopy | Skipped

definition started :: "string \<Rightarrow> event list \<Rightarrow> bool" where
  "started prog es = list_ex (\<lambda>e. case e of Run (p # _) \<Rightarrow> p = prog | _ \<Rightarrow> False) es"

fun fires :: "branch \<Rightarrow> event list \<Rightarrow> bool" where
  "fires OpusDecoding es = started ''opusdec'' es"
| "fires VorbisDecoding es = started ''oggdec'' es"
| "fires Mp4Decoding es = started ''ffmpeg'' es"
| "fires DirectCopy es = list_ex (\<lambda>e. case e of Copy _ _ _ \<Rightarrow> True | _ \<Rightarrow> False) es"
| "fires Skipped es =
     list_all (\<lambda>e. case e of Run argv \<Rightarrow> argv \<noteq> [] \<and> hd argv = ''file'' | Print _ \<Rightarrow> True | _ \<Rightarrow> False) es"

text \<open>The entries the loop of a run iterates over; none when the folder cannot be listed.\<close>

definition listing :: "filesystem \<Rightarrow> path \<Rightarrow> dir_entry list" where
  "listing f folder = (case scandir f folder of Inl _ \<Rightarrow> [] | Inr entries \<Rightarrow> entries)"

section \<open>The dispatcher as the specification words it\<close>

text \<open>
  The signatures the type string is matched against, and the priority order of the
  specification: Opus, then Vorbis, then the four MPEG-4/AAC signatures as
  alternatives, then MP3, then the fallback.
\<close>

definition mp4_signatures :: "string list" where
  "mp4_signatures =
     [''ISO Media, MPEG v4 system, 3GPP'', ''MPEG ADTS, AAC'',
      ''ISO Media, Apple iTunes ALAC/AAC-LC'', ''ISO Media, MP4 v2'']"

definition signatures :: "string list" where
  "signatures =
     [''Ogg data, Opus audio'', ''Ogg data, Vorbis audio''] @ mp4_signatures @ [''MPEG ADTS, layer III'']"

definition priority_branch :: "string \<Rightarrow> branch" where
  "priority_branch audio_type =
     (if startswith audio_type ''Ogg data, Opus audio'' then OpusDecoding
      else if startswith audio_type ''Ogg data, Vorbis audio'' then VorbisDecoding
      else if list_ex (startswith audio_type) mp4_signatures then Mp4Decoding
      else if startswith audio_type ''MPEG ADTS, layer III'' then DirectCopy
      else Skipped)"

text \<open>The decoder command of each decoding branch.\<close>

fun decoder_argv :: "branch \<Rightarrow> path \<Rightarrow> path \<Rightarrow> string list option" where
  "decoder_argv OpusDecoding input_file temp_file = Some [''opusdec'', input_file, temp_file]"
| "decoder_argv VorbisDecoding input_file temp_file = Some [''oggdec'', input_file, ''-o'', temp_file]"
| "decoder_argv Mp4Decoding input_file temp_file = Some [''ffmpeg'', ''-y'', ''-i'', input_file, temp_file]"
| "decoder_argv DirectCopy input_file temp_file = None"
| "decoder_argv Skipped input_file temp_file = None"

text \<open>What the message of a failed decoder calls the audio of each decoding branch.\<close>

fun decode_label :: "branch \<Rightarrow> string" where
  "decode_label OpusDecoding = ''OPUS audio''"
| "decode_label VorbisDecoding = ''Ogg Vorbis audio''"
| "decode_label Mp4Decoding = ''MP4 audio''"
| "decode_label DirectCopy = []"
| "decode_label Skipped = []"

definition lame_argv :: "path \<Rightarrow> path \<Rightarrow> string list" where
  "lame_argv temp_file output_file = [''lame'', ''-h'', ''-b'', ''128'', temp_file, output_file]"

text \<open>
  The events a call of \<open>convert_audio\<close> adds after the sniffer has run, by branch:
  the skip prints; the copy prints and copies, writing the output path or the file
  of the input's name inside it; a decoding branch starts its decoder
  and then stops (the decoder could not be started), prints (the decoder failed), or
  starts the encoder, after which only the intermediate file is removed and lines are
  printed.
\<close>

definition branch_shape :: "branch \<Rightarrow> path \<Rightarrow> path \<Rightarrow> event list \<Rightarrow> bool" where
  "branch_shape b input_file output_file es =
     (case decoder_argv b input_file (output_file @ ''.temp.wav'') of
        None \<Rightarrow>
          (if b = DirectCopy then
             \<exists>m d. es = [Print m, Copy input_file output_file d]
                   \<and> (d = output_file \<or> d = join output_file (basename input_file))
           else \<exists>m. es = [Print m])
      | Some argv \<Rightarrow>
          (\<exists>rest. es = Run argv # rest \<and>
             (rest = [] \<or> (\<exists>m. rest = [Print m]) \<or>
              (\<exists>qs. rest = Run (lame_argv (output_file @ ''.temp.wav'') output_file) # qs
                    \<and> list_all (quiet (output_file @ ''.temp.wav'')) qs))))"

section \<open>A test double for the external programs\<close>

text \<open>
  The programs the script starts are replaced by a double for concrete runs: a test
  file holds the description \<^verbatim>\<open>file -b\<close> prints for it; a decoder or the encoder
  reads its input file and writes its output file, tagging the content; a program
  listed in \<open>broken\<close> exits with status 1 and writes nothing; any other command cannot
  be started.
\<close>

definition run_ok :: "string \<Rightarrow> completed_process" where
  "run_ok out = \<lparr>returncode = 0, stdout = out, stderr = []\<rparr>"

definition run_failed :: "string \<Rightarrow> completed_process" where
  "run_failed msg = \<lparr>returncode = 1, stdout = [], stderr = msg\<rparr>"

definition transcode :: "string \<Rightarrow> path \<Rightarrow> path \<Rightarrow> filesystem \<Rightarrow> completed_process \<times> filesystem" where
  "transcode tag src dst f =
     (case lookup f src of
        Some (RegFile c) \<Rightarrow> (run_ok [], AList.update dst (RegFile (tag @ c)) f)
      | _ \<Rightarrow> (run_failed ''cannot open input'', f))"

definition mock_tools :: "string list \<Rightarrow> tools" where
  "mock_tools broken argv f =
     (case argv of
        [] \<Rightarrow> None
      | prog # args \<Rightarrow>
          if prog \<in> set broken then Some (run_failed ''broken'', f)
          else if prog = ''file'' \<and> length args = 2 then
            Some (case lookup f (args ! 1) of
                    Some (RegFile c) \<Rightarrow> (run_ok c, f)
                  | _ \<Rightarrow> (run_ok ''cannot open'', f))
          else if prog = ''opusdec'' \<and> length args = 2 then
            Some (transcode ''WAV:'' (args ! 0) (args ! 1) f)
          else if prog = ''oggdec'' \<and> length args = 3 then
            Some (transcode ''WAV:'' (args ! 0) (args ! 2) f)
          else if prog = ''ffmpeg'' \<and> length args = 4 then
            Some (transcode ''WAV:'' (args ! 2) (args ! 3) f)
          else if prog = ''lame'' \<and> length args = 5 then
            Some (transcode ''MP3:'' (args ! 3) (args ! 4) f)
          else None)"

text \<open>The folder of the scenario: four files in \<^verbatim>\<open>/music\<close>.\<close>

definition music :: filesystem where
  "music =
     [(''/music'', Directory),
      (''/music/a.mp3'', RegFile ''MPEG ADTS, layer III, v1, 128 kbps, 44.1 kHz, Stereo''),
      (''/music/b.ogg'', RegFile ''Ogg data, Vorbis audio, stereo, 44100 Hz''),
      (''/music/c.m4a'', RegFile ''ISO Media, Apple iTunes ALAC/AAC-LC (.M4A) Audio''),
      (''/music/d.txt'', RegFile ''ASCII text'')]"

text \<open>The folder after a decoder has left the intermediate file of \<^verbatim>\<open>b.ogg\<close>.\<close>

definition staged :: world where
  "staged =
     \<lparr>fs = music @
        [(''/music/converted_to_mp3'', Directory),
         (''/music/converted_to_mp3/b.mp3.temp.wav'', RegFile ''WAV:Ogg data, Vorbis audio, stereo, 44100 Hz'')],
      trace = []\<rparr>"

text \<open>A folder with a file whose content the sniffer does not recognise, and one that is MP3 under another name.\<close>

definition oddities :: world where
  "oddities =
     \<lparr>fs = [(''/music'', Directory),
            (''/music/converted_to_mp3'', Directory),
            (''/music/e.ogg'', RegFile ''data''),
            (''/music/x.ogg'', RegFile ''MPEG ADTS, layer III, v1, 128 kbps, 44.1 kHz, Stereo'')],
      trace = []\<rparr>"

text \<open>A folder whose output folder holds a directory where the output of \<^verbatim>\<open>x.ogg\<close> belongs.\<close>

definition occupied :: world where
  "occupied =
     \<lparr>fs = [(''/music'', Directory),
            (''/music/converted_to_mp3'', Directory),
            (''/music/converted_to_mp3/x.mp3'', Directory),
            (''/music/x.ogg'', RegFile ''MPEG ADTS, layer III, v1, 128 kbps, 44.1 kHz, Stereo'')],
      trace = []\<rparr>"

text \<open>The folder of the scenario before the script has run.\<close>

definition start :: world where
  "start = \<lparr>fs = music, trace = []\<rparr>"


section \<open>Facts about the environment\<close>

lemma subprocess_run_Some:
  "returned t argv (fs w) = Some (r, f') \<Longrightarrow>
   subprocess_run t argv w = (Inr r, w\<lparr>fs := f', trace := trace w @ [Run argv]\<rparr>)"
  by (auto simp: subprocess_run_def returned_def split: option.splits prod.splits)

lemma subprocess_run_None:
  "returned t argv (fs w) = None \<Longrightarrow>
   \<exists>e f'. subprocess_run t argv w = (Inl e, w\<lparr>fs := f', trace := trace w @ [Run argv]\<rparr>)"
proof (cases "t argv (fs w)")
  case None
  then have "subprocess_run t argv w =
      (Inl FileNotFoundError, w\<lparr>fs := fs w, trace := trace w @ [Run argv]\<rparr>)"
    by (simp add: subprocess_run_def)
  then show ?thesis by blast
next
  case (Some rf)
  assume none: "returned t argv (fs w) = None"
  obtain raw f' where rf: "rf = (raw, f')" by (cases rf)
  with Some none have "decode_output raw = None"
    by (simp add: returned_def split: option.splits)
  with Some rf have "subprocess_run t argv w =
      (Inl UnicodeDecodeError, w\<lparr>fs := f', trace := trace w @ [Run argv]\<rparr>)"
    by (simp add: subprocess_run_def)
  then show ?thesis by blast
qed

lemma subprocess_run_undecodable:
  "t argv (fs w) = Some (raw, f') \<Longrightarrow> \<not> (utf8 (stdout raw) \<and> utf8 (stderr raw)) \<Longrightarrow>
   subprocess_run t argv w = (Inl UnicodeDecodeError, w\<lparr>fs := f', trace := trace w @ [Run argv]\<rparr>)"
  by (simp add: subprocess_run_def decode_output_def)

lemma subprocess_run_trace: "trace (snd (subprocess_run t argv w)) = trace w @ [Run argv]"
  by (simp add: subprocess_run_def split: option.splits prod.splits)

lemma os_remove_trace: "trace (snd (os_remove p w)) = trace w @ [Remove p]"
  by (simp add: os_remove_def Let_def split: option.splits node.splits)

lemma shutil_copy_trace:
  "trace (snd (shutil_copy src dst w))
     = trace w @ [Copy src dst (if isdir (fs w) dst then join dst (basename src) else dst)]"
  by (simp add: shutil_copy_def Let_def split: option.splits node.splits)

lemma print_fs: "fs (print s w) = fs w"
  by (simp add: print_def)



lemma convert_to_mp3_events:
  "\<exists>es. trace (snd (convert_to_mp3 t tmp out w)) = trace w @ Run (lame_argv tmp out) # es
        \<and> list_all (quiet tmp) es"
proof (cases "subprocess_run t (lame_argv tmp out) w")
  case (Pair r w1)
  have w1: "trace w1 = trace w @ [Run (lame_argv tmp out)]"
    using subprocess_run_trace [of t "lame_argv tmp out" w] Pair by simp
  show ?thesis
  proof (cases r)
    case (Inl e)
    with Pair w1 show ?thesis
      by (simp add: convert_to_mp3_def lame_argv_def)
  next
    case (Inr res)
    show ?thesis
    proof (cases "returncode res = 0")
      case False
      with Pair Inr w1 show ?thesis
        by (simp add: convert_to_mp3_def lame_argv_def print_def quiet_def)
    next
      case True
      obtain u w2 where rm: "os_remove tmp w1 = (u, w2)" by (cases "os_remove tmp w1")
      have w2: "trace w2 = trace w1 @ [Remove tmp]"
        using os_remove_trace [of tmp w1] rm by simp
      from Pair Inr True rm w1 w2 show ?thesis
        by (cases u) (simp_all add: convert_to_mp3_def lame_argv_def print_def quiet_def)
    qed
  qed
qed

lemma lookup_update:
  "lookup (AList.update k v f) p = (if p = ''/'' then Some Directory else if p = k then Some v else lookup f p)"
  by (simp add: lookup_def update_conv')


lemma lookup_root: "lookup f ''/'' = Some Directory"
  by (simp add: lookup_def)


lemma shutil_copy_ok:
  assumes "written = (if isdir (fs w) dst then join dst (basename src) else dst)"
    and "lookup (fs w) src = Some (RegFile c)"
    and "lookup (fs w) written \<noteq> Some Directory"
    and "isdir (fs w) (dirname written)"
    and "src \<noteq> written"
  shows "shutil_copy src dst w =
           (Inr (), w\<lparr>fs := AList.update written (RegFile c) (fs w),
                      trace := trace w @ [Copy src dst written]\<rparr>)"
proof -
  have "shutil_copy src dst w =
     (let w' = w\<lparr>trace := trace w @ [Copy src dst written]\<rparr>
      in if src = written \<and> lookup (fs w) src \<noteq> None then (Inl SameFileError, w')
         else case lookup (fs w) src of
           None \<Rightarrow> (Inl FileNotFoundError, w')
         | Some Directory \<Rightarrow> (Inl IsADirectoryError, w')
         | Some (RegFile c) \<Rightarrow>
             (case lookup (fs w) written of
                Some Directory \<Rightarrow> (Inl IsADirectoryError, w')
              | _ \<Rightarrow>
                (case lookup (fs w) (dirname written) of
                   None \<Rightarrow> (Inl FileNotFoundError, w')
                 | Some (RegFile _) \<Rightarrow> (Inl NotADirectoryError, w')
                 | Some Directory \<Rightarrow>
                     (Inr (), w'\<lparr>fs := AList.update written (RegFile c) (fs w)\<rparr>))))"
    unfolding assms(1) shutil_copy_def Let_def ..
  then show ?thesis
    using assms(2-5)
    by (simp add: isdir_def Let_def split: option.splits node.splits)
qed

section \<open>The branches of the dispatcher\<close>

lemma startswith_both:
  "startswith s p \<Longrightarrow> startswith s q \<Longrightarrow> prefix p q \<or> prefix q p"
  unfolding startswith_def by (rule prefix_same_cases)

lemma mp3_signature_branch:
  assumes "startswith s ''MPEG ADTS, layer III''"
  shows "priority_branch s = DirectCopy"
proof -
  have "\<not> startswith s ''Ogg data, Opus audio''"
    "\<not> startswith s ''Ogg data, Vorbis audio''"
    "\<not> startswith s ''ISO Media, MPEG v4 system, 3GPP''"
    "\<not> startswith s ''MPEG ADTS, AAC''"
    "\<not> startswith s ''ISO Media, Apple iTunes ALAC/AAC-LC''"
    "\<not> startswith s ''ISO Media, MP4 v2''"
    using startswith_both [OF assms] by fastforce+
  with assms show ?thesis
    by (simp add: priority_branch_def mp4_signatures_def)
qed

lemma no_signature_branch:
  "(\<forall>p \<in> set signatures. \<not> startswith s p) = (priority_branch s = Skipped)"
  by (simp add: signatures_def mp4_signatures_def priority_branch_def)

lemma convert_audio_skip:
  assumes "returned t [''file'', ''-b'', i] (fs w) = Some (s, f1)"
    and "priority_branch (stdout s) = Skipped"
  shows "convert_audio t i out w =
           (Inr (), w\<lparr>fs := f1, trace := trace w @ [Run [''file'', ''-b'', i],
              Print (''Couldn't identify audio type '' @ [CHR 0x27] @ stdout s @ [CHR 0x27]
                     @ '' of '' @ i @ '', skipping'')]\<rparr>)"
  using assms
  by (simp add: convert_audio_def subprocess_run_Some priority_branch_def mp4_signatures_def print_def
           split: if_splits)

lemma convert_audio_copy:
  assumes "returned t [''file'', ''-b'', i] (fs w) = Some (s, f1)"
    and "priority_branch (stdout s) = DirectCopy"
  shows "convert_audio t i out w =
           shutil_copy i out (w\<lparr>fs := f1, trace := trace w @ [Run [''file'', ''-b'', i],
              Print (i @ '' is already in MP3 format: No converting necessary, copying into output folder.'')]\<rparr>)"
  using assms
  by (simp add: convert_audio_def subprocess_run_Some priority_branch_def mp4_signatures_def print_def
           split: if_splits)

lemma convert_audio_decode:
  assumes "returned t [''file'', ''-b'', i] (fs w) = Some (s, f1)"
    and "decoder_argv (priority_branch (stdout s)) i (out @ ''.temp.wav'') = Some argv"
  shows "convert_audio t i out w =
           (case subprocess_run t argv (w\<lparr>fs := f1, trace := trace w @ [Run [''file'', ''-b'', i]]\<rparr>) of
              (Inl e, w2) \<Rightarrow> (Inl e, w2)
            | (Inr result, w2) \<Rightarrow>
                if returncode result = 0 then discard (convert_to_mp3 t (out @ ''.temp.wav'') out w2)
                else (Inr (), print (''Couldn't decode '' @ decode_label (priority_branch (stdout s))
                                     @ '' of '' @ i @ '': '' @ stdout result @ stderr result) w2))"
proof (cases "priority_branch (stdout s)")
  case OpusDecoding
  have sw: "startswith (stdout s) ''Ogg data, Opus audio''"
    using OpusDecoding by (simp add: priority_branch_def split: if_splits)
  have lab: "decode_label (priority_branch (stdout s)) = ''OPUS audio''"
    and argv: "argv = [''opusdec'', i, out @ ''.temp.wav'']"
    using OpusDecoding assms(2) by simp_all
  show ?thesis
    unfolding lab argv using assms(1) sw
    by (simp add: convert_audio_def subprocess_run_Some Let_def split: prod.splits sum.splits)
next
  case VorbisDecoding
  have sw: "\<not> startswith (stdout s) ''Ogg data, Opus audio''"
    "startswith (stdout s) ''Ogg data, Vorbis audio''"
    using VorbisDecoding by (simp_all add: priority_branch_def split: if_splits)
  have lab: "decode_label (priority_branch (stdout s)) = ''Ogg Vorbis audio''"
    and argv: "argv = [''oggdec'', i, ''-o'', out @ ''.temp.wav'']"
    using VorbisDecoding assms(2) by simp_all
  show ?thesis
    unfolding lab argv using assms(1) sw
    by (simp add: convert_audio_def subprocess_run_Some Let_def split: prod.splits sum.splits)
next
  case Mp4Decoding
  have sw: "\<not> startswith (stdout s) ''Ogg data, Opus audio''"
    "\<not> startswith (stdout s) ''Ogg data, Vorbis audio''"
    "startswith (stdout s) ''ISO Media, MPEG v4 system, 3GPP'' \<or>
     startswith (stdout s) ''MPEG ADTS, AAC'' \<or>
     startswith (stdout s) ''ISO Media, Apple iTunes ALAC/AAC-LC'' \<or>
     startswith (stdout s) ''ISO Media, MP4 v2''"
    using Mp4Decoding by (simp_all add: priority_branch_def mp4_signatures_def split: if_splits)
  have lab: "decode_label (priority_branch (stdout s)) = ''MP4 audio''"
    and argv: "argv = [''ffmpeg'', ''-y'', ''-i'', i, out @ ''.temp.wav'']"
    using Mp4Decoding assms(2) by simp_all
  show ?thesis
    unfolding lab argv using assms(1) sw
    by (simp add: convert_audio_def subprocess_run_Some Let_def split: prod.splits sum.splits)
next
  case DirectCopy
  with assms show ?thesis by simp
next
  case Skipped
  with assms show ?thesis by simp
qed

lemma snd_discard: "snd (discard r) = snd r"
  by (simp add: discard_def split: prod.splits sum.splits)

lemma convert_audio_shape:
  assumes sniff: "returned t [''file'', ''-b'', i] (fs w) = Some (s, f1)"
  shows "\<exists>es. trace (snd (convert_audio t i out w)) = trace w @ Run [''file'', ''-b'', i] # es
             \<and> branch_shape (priority_branch (stdout s)) i out es"
proof (cases "decoder_argv (priority_branch (stdout s)) i (out @ ''.temp.wav'')")
  case None
  then have "priority_branch (stdout s) = DirectCopy \<or> priority_branch (stdout s) = Skipped"
    by (cases "priority_branch (stdout s)") simp_all
  then show ?thesis
  proof
    assume b: "priority_branch (stdout s) = DirectCopy"
    show ?thesis
      unfolding convert_audio_copy [where t = t and w = w, OF sniff b]
      by (simp add: b branch_shape_def shutil_copy_trace)
  next
    assume b: "priority_branch (stdout s) = Skipped"
    show ?thesis
      unfolding convert_audio_skip [where t = t and w = w, OF sniff b]
      by (simp add: b branch_shape_def)
  qed
next
  case (Some argv)
  let ?w1 = "w\<lparr>fs := f1, trace := trace w @ [Run [''file'', ''-b'', i]]\<rparr>"
  let ?tmp = "out @ ''.temp.wav''"
  note eq = convert_audio_decode [where t = t and w = w, OF sniff Some]
  show ?thesis
  proof (cases "returned t argv f1")
    case None
    then obtain e f' where
      "subprocess_run t argv ?w1 = (Inl e, ?w1\<lparr>fs := f', trace := trace ?w1 @ [Run argv]\<rparr>)"
      using subprocess_run_None [of t argv ?w1] by auto
    then show ?thesis
      unfolding eq by (simp add: \<open>decoder_argv _ _ _ = Some argv\<close> branch_shape_def)
  next
    case (Some df)
    obtain d f2 where df: "df = (d, f2)" by (cases df)
    show ?thesis
    proof (cases "returncode d = 0")
      case False
      with Some df show ?thesis
        unfolding eq by (simp add: \<open>decoder_argv _ _ _ = Some argv\<close> branch_shape_def subprocess_run_Some print_def)
    next
      case True
      let ?w2 = "?w1\<lparr>fs := f2, trace := trace ?w1 @ [Run argv]\<rparr>"
      obtain qs where qs: "trace (snd (convert_to_mp3 t ?tmp out ?w2)) = trace ?w2 @ Run (lame_argv ?tmp out) # qs"
        "list_all (quiet ?tmp) qs"
        using convert_to_mp3_events [of t ?tmp out ?w2] by blast
      have "convert_audio t i out w = discard (convert_to_mp3 t ?tmp out ?w2)"
        unfolding eq using Some df True by (simp add: subprocess_run_Some)
      with qs show ?thesis
        by (simp add: \<open>decoder_argv _ _ _ = Some argv\<close> branch_shape_def snd_discard)
    qed
  qed
qed

lemma since_append: "trace w' = trace w @ es \<Longrightarrow> since w w' = es"
  by (simp add: since_def)

lemma quiet_not_started: "list_all (quiet tmp) qs \<Longrightarrow> \<not> started prog qs"
  by (induction qs) (auto simp: started_def quiet_def split: event.splits)

lemma quiet_no_copy:
  "list_all (quiet tmp) qs \<Longrightarrow> \<not> list_ex (\<lambda>e. case e of Copy _ _ _ \<Rightarrow> True | _ \<Rightarrow> False) qs"
  by (induction qs) (auto simp: quiet_def split: event.splits)

lemma started_Cons:
  "started prog (e # es) = ((case e of Run (p # _) \<Rightarrow> p = prog | _ \<Rightarrow> False) \<or> started prog es)"
  by (simp add: started_def)

lemma started_Nil: "\<not> started prog []"
  by (simp add: started_def)

lemma branch_shape_fires:
  assumes "branch_shape b i out es"
  shows "fires b' (Run [''file'', ''-b'', i] # es) = (b' = b)"
proof (cases b)
  case OpusDecoding
  with assms show ?thesis
    by (cases b') (auto simp: branch_shape_def started_Cons started_Nil lame_argv_def
                   dest: quiet_not_started quiet_no_copy)
next
  case VorbisDecoding
  with assms show ?thesis
    by (cases b') (auto simp: branch_shape_def started_Cons started_Nil lame_argv_def
                   dest: quiet_not_started quiet_no_copy)
next
  case Mp4Decoding
  with assms show ?thesis
    by (cases b') (auto simp: branch_shape_def started_Cons started_Nil lame_argv_def
                   dest: quiet_not_started quiet_no_copy)
next
  case DirectCopy
  with assms show ?thesis
    by (cases b') (auto simp: branch_shape_def started_Cons started_Nil)
next
  case Skipped
  with assms show ?thesis
    by (cases b') (auto simp: branch_shape_def started_Cons started_Nil)
qed

lemma convert_audio_fires:
  assumes "returned t [''file'', ''-b'', i] (fs w) = Some (s, f1)"
  shows "fires b (since w (snd (convert_audio t i out w))) = (b = priority_branch (stdout s))"
proof -
  obtain es where es: "trace (snd (convert_audio t i out w)) = trace w @ Run [''file'', ''-b'', i] # es"
    "branch_shape (priority_branch (stdout s)) i out es"
    using convert_audio_shape [where t = t and w = w, OF assms] by blast
  show ?thesis
    unfolding since_append [OF es(1)] by (rule branch_shape_fires [OF es(2)])
qed

lemma process_entry_dispatched:
  assumes "\<not> startswith (name entry) ''.''" and "is_file entry"
    and "snd (splitext (name entry)) \<in> set extensions"
  shows "process_entry t mp3_folder entry w =
           convert_audio t (path entry) (join mp3_folder (fst (splitext (name entry)) @ ''.mp3'')) w"
  using assms by (cases "splitext (name entry)") (simp add: process_entry_def)


section \<open>One branch, chosen by the sniffed text\<close>

text \<open>
  Claim C2. When the call of the sniffer has returned, the branch that fires in
  \<open>convert_audio\<close> is the
  one the priority order of the specification names for the sniffed text: Opus first,
  then Vorbis, then the four MPEG-4/AAC signatures as alternatives, then MP3, then
  the fallback. Exactly one of the five branches fires.
\<close>

theorem one_branch_in_priority_order:
  assumes "returned t [''file'', ''-b'', input_file] (fs w) = Some (sniffed, f1)"
  shows "(\<forall>b. fires b (since w (snd (convert_audio t input_file output_file w)))
               = (b = priority_branch (stdout sniffed)))
       \<and> (\<exists>!b. fires b (since w (snd (convert_audio t input_file output_file w))))"
  using convert_audio_fires [where t = t and w = w, OF assms] by auto

text \<open>The double on \<^verbatim>\<open>b.ogg\<close>: the Vorbis branch fires, the Opus branch does not.\<close>

theorem one_branch_in_priority_order_witness:
  "fires VorbisDecoding
     (since start (snd (convert_audio (mock_tools []) ''/music/b.ogg'' ''/music/converted_to_mp3/b.mp3'' start)))
   \<and> \<not> fires OpusDecoding
     (since start (snd (convert_audio (mock_tools []) ''/music/b.ogg'' ''/music/converted_to_mp3/b.mp3'' start)))
   \<and> priority_branch ''Ogg data, Vorbis audio, stereo, 44100 Hz'' = VorbisDecoding"
proof -
  let ?c = "''Ogg data, Vorbis audio, stereo, 44100 Hz''"
  have sniff: "returned (mock_tools []) [''file'', ''-b'', ''/music/b.ogg''] (fs start) = Some (run_ok ?c, fs start)"
    by code_simp
  have pb: "priority_branch (stdout (run_ok ?c)) = VorbisDecoding"
    by code_simp
  show ?thesis
    using one_branch_in_priority_order [where t = "mock_tools []" and w = start, OF sniff] pb
    by (simp add: run_ok_def)
qed

text \<open>
  Claim C10. Two calls of \<open>convert_audio\<close>, on any inputs, outputs, worlds and tools,
  fire the same branch when the calls of the sniffer return the same text for both. In particular
  an entry with the extension \<^verbatim>\<open>.ogg\<close> whose content is sniffed as MP3 is copied, and
  no decoder is started for it.
\<close>

theorem branch_depends_on_sniffed_text_only:
  assumes "returned t1 [''file'', ''-b'', input1] (fs w1) = Some (sniffed1, f1)"
    and "returned t2 [''file'', ''-b'', input2] (fs w2) = Some (sniffed2, f2)"
    and "stdout sniffed1 = stdout sniffed2"
  shows "(\<forall>b. fires b (since w1 (snd (convert_audio t1 input1 output1 w1)))
               = fires b (since w2 (snd (convert_audio t2 input2 output2 w2))))
       \<and> (\<forall>entry mp3_folder.
             \<not> startswith (name entry) ''.'' \<and> is_file entry \<and> snd (splitext (name entry)) = ''.ogg''
             \<and> path entry = input1 \<and> startswith (stdout sniffed1) ''MPEG ADTS, layer III''
             \<longrightarrow> (\<forall>b. fires b (since w1 (snd (process_entry t1 mp3_folder entry w1))) = (b = DirectCopy)))"
proof (intro conjI allI impI)
  fix b
  show "fires b (since w1 (snd (convert_audio t1 input1 output1 w1)))
          = fires b (since w2 (snd (convert_audio t2 input2 output2 w2)))"
    using convert_audio_fires [where t = t1 and w = w1, OF assms(1)]
      convert_audio_fires [where t = t2 and w = w2, OF assms(2)] assms(3)
    by simp
next
  fix entry :: dir_entry and mp3_folder :: path and b :: branch
  assume e: "\<not> startswith (name entry) ''.'' \<and> is_file entry \<and> snd (splitext (name entry)) = ''.ogg''
             \<and> path entry = input1 \<and> startswith (stdout sniffed1) ''MPEG ADTS, layer III''"
  then have ext: "snd (splitext (name entry)) \<in> set extensions"
    by (simp add: extensions_def)
  have "process_entry t1 mp3_folder entry w1 =
          convert_audio t1 input1 (join mp3_folder (fst (splitext (name entry)) @ ''.mp3'')) w1"
    using process_entry_dispatched [of entry t1 mp3_folder w1] e ext by simp
  moreover have "priority_branch (stdout sniffed1) = DirectCopy"
    using e by (simp add: mp3_signature_branch)
  ultimately show "fires b (since w1 (snd (process_entry t1 mp3_folder entry w1))) = (b = DirectCopy)"
    using convert_audio_fires [where t = t1 and w = w1, OF assms(1)] by simp
qed

text \<open>
  The double on \<^verbatim>\<open>x.ogg\<close> and \<^verbatim>\<open>a.mp3\<close>, which hold the same MP3 content: both calls
  copy, and the entry \<^verbatim>\<open>x.ogg\<close> is copied, not decoded as Vorbis.
\<close>

theorem branch_depends_on_sniffed_text_only_witness:
  "fires DirectCopy
     (since oddities (snd (convert_audio (mock_tools []) ''/music/x.ogg'' ''/music/converted_to_mp3/x.mp3'' oddities)))
   = fires DirectCopy
     (since start (snd (convert_audio (mock_tools []) ''/music/a.mp3'' ''/music/converted_to_mp3/a.mp3'' start)))
   \<and> fires DirectCopy
     (since oddities (snd (process_entry (mock_tools []) ''/music/converted_to_mp3''
        \<lparr>name = ''x.ogg'', path = ''/music/x.ogg'', is_file = True\<rparr> oddities)))
   \<and> \<not> fires VorbisDecoding
     (since oddities (snd (process_entry (mock_tools []) ''/music/converted_to_mp3''
        \<lparr>name = ''x.ogg'', path = ''/music/x.ogg'', is_file = True\<rparr> oddities)))"
proof -
  let ?c = "''MPEG ADTS, layer III, v1, 128 kbps, 44.1 kHz, Stereo''"
  let ?e = "\<lparr>name = ''x.ogg'', path = ''/music/x.ogg'', is_file = True\<rparr>"
  have s1: "returned (mock_tools []) [''file'', ''-b'', ''/music/x.ogg''] (fs oddities) = Some (run_ok ?c, fs oddities)"
    by code_simp
  have s2: "returned (mock_tools []) [''file'', ''-b'', ''/music/a.mp3''] (fs start) = Some (run_ok ?c, fs start)"
    by code_simp
  have e: "\<not> startswith (name ?e) ''.'' \<and> is_file ?e \<and> snd (splitext (name ?e)) = ''.ogg''
           \<and> path ?e = ''/music/x.ogg'' \<and> startswith (stdout (run_ok ?c)) ''MPEG ADTS, layer III''"
    by code_simp
  show ?thesis
    using branch_depends_on_sniffed_text_only [where ?t1.0 = "mock_tools []" and ?w1.0 = oddities
        and ?t2.0 = "mock_tools []" and ?w2.0 = start
        and ?output1.0 = "''/music/converted_to_mp3/x.mp3''" and ?output2.0 = "''/music/converted_to_mp3/a.mp3''",
        OF s1 s2 refl] e
    by blast
qed

section \<open>Decoding, then encoding\<close>





lemma undecodable_decoder_output_stops_the_loop:
  assumes "\<not> startswith (name entry) ''.''" and "is_file entry"
    and "snd (splitext (name entry)) \<in> set extensions"
    and "output_file = join mp3_folder (fst (splitext (name entry)) @ ''.mp3'')"
    and "returned t [''file'', ''-b'', path entry] (fs w) = Some (sniffed, f1)"
    and "decoder_argv (priority_branch (stdout sniffed)) (path entry) (output_file @ ''.temp.wav'') = Some argv"
    and "t argv f1 = Some (raw, f2)"
    and "\<not> (utf8 (stdout raw) \<and> utf8 (stderr raw))"
  shows "scan_loop t mp3_folder (entry # entries) w =
           (Inl UnicodeDecodeError,
            w\<lparr>fs := f2, trace := trace w @ [Run [''file'', ''-b'', path entry], Run argv]\<rparr>)"
proof -
  let ?w1 = "w\<lparr>fs := f1, trace := trace w @ [Run [''file'', ''-b'', path entry]]\<rparr>"
  have pe: "process_entry t mp3_folder entry w = convert_audio t (path entry) output_file w"
    using process_entry_dispatched [OF assms(1-3)] assms(4) by simp
  have "t argv (fs ?w1) = Some (raw, f2)"
    using assms(7) by simp
  then have "subprocess_run t argv ?w1 =
      (Inl UnicodeDecodeError, ?w1\<lparr>fs := f2, trace := trace ?w1 @ [Run argv]\<rparr>)"
    using assms(8) by (rule subprocess_run_undecodable)
  then show ?thesis
    by (simp add: pe convert_audio_decode [where t = t and w = w, OF assms(5,6)])
qed



section \<open>The encoder step\<close>




section \<open>Unrecognised content\<close>

text \<open>
  Claim C8. When the call of the sniffer has returned and its output starts with none
  of the known signatures, \<open>convert_audio\<close> returns normally. Besides running the sniffer it only
  prints the message that the file is skipped: no decoder and no encoder is started,
  and the file system is the one the sniffer left, so no output file is produced.
\<close>

theorem unrecognised_type_is_skipped:
  assumes "returned t [''file'', ''-b'', input_file] (fs w) = Some (sniffed, f1)"
    and "\<forall>p \<in> set signatures. \<not> startswith (stdout sniffed) p"
  shows "convert_audio t input_file output_file w =
           (Inr (),
            w\<lparr>fs := f1,
              trace := trace w @ [Run [''file'', ''-b'', input_file],
                 Print (''Couldn't identify audio type '' @ [CHR 0x27] @ stdout sniffed @ [CHR 0x27]
                        @ '' of '' @ input_file @ '', skipping'')]\<rparr>)"
proof -
  have "priority_branch (stdout sniffed) = Skipped"
    using assms(2) by (simp only: no_signature_branch)
  then show ?thesis
    by (rule convert_audio_skip [where t = t and w = w, OF assms(1)])
qed

text \<open>The double on \<^verbatim>\<open>e.ogg\<close>, whose content the sniffer reports as \<^verbatim>\<open>data\<close>.\<close>

theorem unrecognised_type_is_skipped_witness:
  "convert_audio (mock_tools []) ''/music/e.ogg'' ''/music/converted_to_mp3/e.mp3'' oddities =
     (Inr (),
      \<lparr>fs = fs oddities,
       trace = [Run [''file'', ''-b'', ''/music/e.ogg''],
                Print (''Couldn't identify audio type '' @ [CHR 0x27] @ ''data'' @ [CHR 0x27]
                       @ '' of /music/e.ogg, skipping'')]\<rparr>)"
proof -
  have sniff: "returned (mock_tools []) [''file'', ''-b'', ''/music/e.ogg''] (fs oddities) = Some (run_ok ''data'', fs oddities)"
    by code_simp
  have none: "\<forall>p \<in> set signatures. \<not> startswith (stdout (run_ok ''data'')) p"
    by code_simp
  show ?thesis
    using unrecognised_type_is_skipped [where t = "mock_tools []" and w = oddities, OF sniff none]
    by (simp add: run_ok_def oddities_def)
qed

section \<open>Passing MP3 through\<close>

text \<open>
  Claim C6 says that the copy goes to the output path. When the output path is an
  existing directory it does not: the call returns normally, the output path stays
  the directory it was, and the copy is the file \<^verbatim>\<open>x.ogg\<close> inside it.
\<close>

theorem copy_lands_inside_a_directory:
  "convert_audio (mock_tools []) ''/music/x.ogg'' ''/music/converted_to_mp3/x.mp3'' occupied =
     (Inr (),
      \<lparr>fs = fs occupied @
         [(''/music/converted_to_mp3/x.mp3/x.ogg'',
           RegFile ''MPEG ADTS, layer III, v1, 128 kbps, 44.1 kHz, Stereo'')],
       trace = [Run [''file'', ''-b'', ''/music/x.ogg''],
                Print ''/music/x.ogg is already in MP3 format: No converting necessary, copying into output folder.'',
                Copy ''/music/x.ogg'' ''/music/converted_to_mp3/x.mp3'' ''/music/converted_to_mp3/x.mp3/x.ogg'']\<rparr>)
   \<and> lookup (fs (snd (convert_audio (mock_tools []) ''/music/x.ogg'' ''/music/converted_to_mp3/x.mp3'' occupied)))
         ''/music/converted_to_mp3/x.mp3'' = Some Directory"
  by code_simp

text \<open>
  Claim C6, amended. Let the sniffer report the MP3 signature for a regular file. The
  file the copy writes is the output path, or, when the output path is an existing
  directory, the file of the input's base name inside it. Let that file be a place a
  file can be written to: not a directory, inside an existing directory, and not the
  input itself. Then \<open>convert_audio\<close> returns normally and that file holds the content
  of the input unchanged. The effects of the call are the sniffer, one printed line
  and the copy: no decoder and no encoder is started, and every other path is as the
  sniffer left it, so no intermediate file is created.
\<close>

theorem mp3_is_copied:
  assumes "returned t [''file'', ''-b'', input_file] (fs w) = Some (sniffed, f1)"
    and "startswith (stdout sniffed) ''MPEG ADTS, layer III''"
    and "written = (if isdir f1 output_file then join output_file (basename input_file) else output_file)"
    and "lookup f1 input_file = Some (RegFile c)"
    and "lookup f1 written \<noteq> Some Directory"
    and "isdir f1 (dirname written)"
    and "input_file \<noteq> written"
  shows "convert_audio t input_file output_file w =
           (Inr (),
            w\<lparr>fs := AList.update written (RegFile c) f1,
              trace := trace w @ [Run [''file'', ''-b'', input_file],
                 Print (input_file @ '' is already in MP3 format: No converting necessary, copying into output folder.''),
                 Copy input_file output_file written]\<rparr>)
       \<and> lookup (AList.update written (RegFile c) f1) written = Some (RegFile c)
       \<and> (\<forall>p. p \<noteq> written \<longrightarrow> lookup (AList.update written (RegFile c) f1) p = lookup f1 p)"
proof -
  let ?w1 = "w\<lparr>fs := f1,
              trace := trace w @ [Run [''file'', ''-b'', input_file],
                 Print (input_file @ '' is already in MP3 format: No converting necessary, copying into output folder.'')]\<rparr>"
  have br: "priority_branch (stdout sniffed) = DirectCopy"
    using assms(2) by (rule mp3_signature_branch)
  have root: "written \<noteq> ''/''"
    using assms(5) by (auto simp: lookup_def)
  have "shutil_copy input_file output_file ?w1 =
          (Inr (), ?w1\<lparr>fs := AList.update written (RegFile c) (fs ?w1),
                        trace := trace ?w1 @ [Copy input_file output_file written]\<rparr>)"
    by (rule shutil_copy_ok) (use assms(3-7) in simp_all)
  then have "convert_audio t input_file output_file w =
           (Inr (),
            w\<lparr>fs := AList.update written (RegFile c) f1,
              trace := trace w @ [Run [''file'', ''-b'', input_file],
                 Print (input_file @ '' is already in MP3 format: No converting necessary, copying into output folder.''),
                 Copy input_file output_file written]\<rparr>)"
    unfolding convert_audio_copy [where t = t and w = w, OF assms(1) br] by simp
  moreover have "lookup (AList.update written (RegFile c) f1) written = Some (RegFile c)"
    using root by (simp add: lookup_update)
  moreover have "\<forall>p. p \<noteq> written \<longrightarrow> lookup (AList.update written (RegFile c) f1) p = lookup f1 p"
    by (simp add: lookup_update lookup_root)
  ultimately show ?thesis by simp
qed

text \<open>
  The double on \<^verbatim>\<open>x.ogg\<close>, which holds MP3 content: with a free output path the
  copy is the output path; with a directory there the copy is inside it.
\<close>

theorem mp3_is_copied_witness:
  "convert_audio (mock_tools []) ''/music/x.ogg'' ''/music/converted_to_mp3/x.mp3'' oddities =
     (Inr (),
      \<lparr>fs = fs oddities @
         [(''/music/converted_to_mp3/x.mp3'', RegFile ''MPEG ADTS, layer III, v1, 128 kbps, 44.1 kHz, Stereo'')],
       trace = [Run [''file'', ''-b'', ''/music/x.ogg''],
                Print ''/music/x.ogg is already in MP3 format: No converting necessary, copying into output folder.'',
                Copy ''/music/x.ogg'' ''/music/converted_to_mp3/x.mp3'' ''/music/converted_to_mp3/x.mp3'']\<rparr>)
   \<and> fs (snd (convert_audio (mock_tools []) ''/music/x.ogg'' ''/music/converted_to_mp3/x.mp3'' occupied)) =
       fs occupied @
         [(''/music/converted_to_mp3/x.mp3/x.ogg'', RegFile ''MPEG ADTS, layer III, v1, 128 kbps, 44.1 kHz, Stereo'')]"
proof -
  let ?c = "''MPEG ADTS, layer III, v1, 128 kbps, 44.1 kHz, Stereo''"
  let ?out = "''/music/converted_to_mp3/x.mp3''"
  let ?in = "''/music/converted_to_mp3/x.mp3/x.ogg''"
  have sniff: "returned (mock_tools []) [''file'', ''-b'', ''/music/x.ogg''] (fs oddities) = Some (run_ok ?c, fs oddities)"
    by code_simp
  have sniff': "returned (mock_tools []) [''file'', ''-b'', ''/music/x.ogg''] (fs occupied) = Some (run_ok ?c, fs occupied)"
    by code_simp
  have sig: "startswith (stdout (run_ok ?c)) ''MPEG ADTS, layer III''"
    by code_simp
  have wr: "?out = (if isdir (fs oddities) ?out then join ?out (basename ''/music/x.ogg'') else ?out)"
    by code_simp
  have wr': "?in = (if isdir (fs occupied) ?out then join ?out (basename ''/music/x.ogg'') else ?out)"
    by code_simp
  have src: "lookup (fs oddities) ''/music/x.ogg'' = Some (RegFile ?c)"
    and src': "lookup (fs occupied) ''/music/x.ogg'' = Some (RegFile ?c)"
    by code_simp+
  have dst: "lookup (fs oddities) ?out \<noteq> Some Directory"
    and dst': "lookup (fs occupied) ?in \<noteq> Some Directory"
    by code_simp+
  have dir: "isdir (fs oddities) (dirname ?out)"
    and dir': "isdir (fs occupied) (dirname ?in)"
    by code_simp+
  have neq: "''/music/x.ogg'' \<noteq> ?out" and neq': "''/music/x.ogg'' \<noteq> ?in"
    by simp_all
  have upd: "AList.update ?out (RegFile ?c) (fs oddities) = fs oddities @ [(?out, RegFile ?c)]"
    and upd': "AList.update ?in (RegFile ?c) (fs occupied) = fs occupied @ [(?in, RegFile ?c)]"
    by code_simp+
  show ?thesis
    using mp3_is_copied [where t = "mock_tools []" and w = oddities, OF sniff sig wr src dst dir neq]
      mp3_is_copied [where t = "mock_tools []" and w = occupied, OF sniff' sig wr' src' dst' dir' neq']
      upd upd'
    by (simp add: oddities_def)
qed

section \<open>Entries the loop does not dispatch\<close>

text \<open>
  Claim C5 says that a hidden entry is logged as skipped. It is not: the loop passes
  over the hidden file \<^verbatim>\<open>.cover.ogg\<close> without adding anything to the trace.
\<close>

theorem hidden_entry_is_not_logged:
  "startswith ''.cover.ogg'' ''.''
   \<and> process_entry (mock_tools []) ''/music/converted_to_mp3''
         \<lparr>name = ''.cover.ogg'', path = ''/music/.cover.ogg'', is_file = True\<rparr> start = (Inr (), start)
   \<and> since start (snd (process_entry (mock_tools []) ''/music/converted_to_mp3''
         \<lparr>name = ''.cover.ogg'', path = ''/music/.cover.ogg'', is_file = True\<rparr> start)) = []"
  by code_simp


text \<open>
  Claim C5, amended. For an entry that is hidden, is not a regular file, or has an
  extension outside the list, the dispatcher is not called: the loop body returns
  normally, starts no command and leaves the file system as it is. A hidden entry and
  an entry that is not a regular file add nothing to the trace; a regular file that
  is not hidden and has another extension adds the line \<^verbatim>\<open>Skipping\<close> with its name.
\<close>

theorem entries_not_dispatched:
  assumes "startswith (name entry) ''.'' \<or> \<not> is_file entry
           \<or> snd (splitext (name entry)) \<notin> set extensions"
  shows "process_entry t mp3_folder entry w =
           (Inr (),
            if startswith (name entry) ''.'' \<or> \<not> is_file entry then w
            else print (''Skipping '' @ name entry) w)
       \<and> runs (since w (snd (process_entry t mp3_folder entry w))) = []
       \<and> fs (snd (process_entry t mp3_folder entry w)) = fs w"
proof -
  have eq: "process_entry t mp3_folder entry w =
           (Inr (),
            if startswith (name entry) ''.'' \<or> \<not> is_file entry then w
            else print (''Skipping '' @ name entry) w)"
    using assms by (cases "splitext (name entry)") (auto simp: process_entry_def)
  show ?thesis
    unfolding eq by (simp add: since_def print_def)
qed


text \<open>The text file of the scenario is logged; the output folder, a directory, is passed over.\<close>

theorem entries_not_dispatched_witness:
  "process_entry (mock_tools []) ''/music/converted_to_mp3''
     \<lparr>name = ''d.txt'', path = ''/music/d.txt'', is_file = True\<rparr> start
     = (Inr (), \<lparr>fs = music, trace = [Print ''Skipping d.txt'']\<rparr>)
   \<and> process_entry (mock_tools []) ''/music/converted_to_mp3''
     \<lparr>name = ''converted_to_mp3'', path = ''/music/converted_to_mp3'', is_file = False\<rparr> start
     = (Inr (), start)"
proof -
  let ?d = "\<lparr>name = ''d.txt'', path = ''/music/d.txt'', is_file = True\<rparr>"
  let ?m = "\<lparr>name = ''converted_to_mp3'', path = ''/music/converted_to_mp3'', is_file = False\<rparr>"
  have d: "startswith (name ?d) ''.'' \<or> \<not> is_file ?d \<or> snd (splitext (name ?d)) \<notin> set extensions"
    by code_simp
  have d': "\<not> (startswith (name ?d) ''.'' \<or> \<not> is_file ?d)"
    by code_simp
  have m: "startswith (name ?m) ''.'' \<or> \<not> is_file ?m \<or> snd (splitext (name ?m)) \<notin> set extensions"
    by simp
  show ?thesis
    using entries_not_dispatched [OF d, of "mock_tools []" "''/music/converted_to_mp3''" start]
      entries_not_dispatched [OF m, of "mock_tools []" "''/music/converted_to_mp3''" start] d'
    by (simp add: print_def start_def)
qed


section \<open>The scenario of four files\<close>

text \<open>
  Claim C1 says that \<^verbatim>\<open>a.mp3\<close> is copied to the output folder. With tools that
  succeed, the output folder holds no \<^verbatim>\<open>a.mp3\<close> after the run, although the input
  file is there: the extension \<^verbatim>\<open>.mp3\<close> is not in the list of line 85.
\<close>

theorem mp3_file_of_the_scenario_is_not_copied:
  "lookup (fs (snd (main (mock_tools []) ''/music'' start))) ''/music/converted_to_mp3/a.mp3'' = None
   \<and> lookup (fs start) ''/music/a.mp3''
       = Some (RegFile ''MPEG ADTS, layer III, v1, 128 kbps, 44.1 kHz, Stereo'')"
  by code_simp


text \<open>
  Claim C1, amended. On the folder with \<^verbatim>\<open>a.mp3\<close>, \<^verbatim>\<open>b.ogg\<close> (Vorbis), \<^verbatim>\<open>c.m4a\<close> and
  \<^verbatim>\<open>d.txt\<close>, with tools that succeed, the run ends normally; the output folder is
  created and holds \<^verbatim>\<open>b.mp3\<close> and \<^verbatim>\<open>c.mp3\<close> and nothing else; the intermediate
  files are removed; \<^verbatim>\<open>a.mp3\<close> and \<^verbatim>\<open>d.txt\<close> are logged as skipped and no command is
  started for them.
\<close>

theorem scenario_four_files:
  "main (mock_tools []) ''/music'' start =
     (Inr (),
      \<lparr>fs = music @
         [(''/music/converted_to_mp3'', Directory),
          (''/music/converted_to_mp3/b.mp3'', RegFile ''MP3:WAV:Ogg data, Vorbis audio, stereo, 44100 Hz''),
          (''/music/converted_to_mp3/c.mp3'', RegFile ''MP3:WAV:ISO Media, Apple iTunes ALAC/AAC-LC (.M4A) Audio'')],
       trace =
         [Print ''Converting all audios in /music: Saving MP3 files to /music/converted_to_mp3'',
          Makedirs ''/music/converted_to_mp3'',
          Print ''Skipping a.mp3'',
          Run [''file'', ''-b'', ''/music/b.ogg''],
          Run [''oggdec'', ''/music/b.ogg'', ''-o'', ''/music/converted_to_mp3/b.mp3.temp.wav''],
          Run [''lame'', ''-h'', ''-b'', ''128'', ''/music/converted_to_mp3/b.mp3.temp.wav'', ''/music/converted_to_mp3/b.mp3''],
          Remove ''/music/converted_to_mp3/b.mp3.temp.wav'',
          Print ''Successfully saved /music/converted_to_mp3/b.mp3'',
          Run [''file'', ''-b'', ''/music/c.m4a''],
          Run [''ffmpeg'', ''-y'', ''-i'', ''/music/c.m4a'', ''/music/converted_to_mp3/c.mp3.temp.wav''],
          Run [''lame'', ''-h'', ''-b'', ''128'', ''/music/converted_to_mp3/c.mp3.temp.wav'', ''/music/converted_to_mp3/c.mp3''],
          Remove ''/music/converted_to_mp3/c.mp3.temp.wav'',
          Print ''Successfully saved /music/converted_to_mp3/c.mp3'',
          Print ''Skipping d.txt'']\<rparr>)"
  by code_simp


text \<open>The two outputs are there, and nothing was written for \<^verbatim>\<open>d.txt\<close>.\<close>

theorem scenario_four_files_witness:
  "lookup (fs (snd (main (mock_tools []) ''/music'' start))) ''/music/converted_to_mp3/b.mp3''
     = Some (RegFile ''MP3:WAV:Ogg data, Vorbis audio, stereo, 44100 Hz'')
   \<and> lookup (fs (snd (main (mock_tools []) ''/music'' start))) ''/music/converted_to_mp3/c.mp3''
     = Some (RegFile ''MP3:WAV:ISO Media, Apple iTunes ALAC/AAC-LC (.M4A) Audio'')
   \<and> lookup (fs (snd (main (mock_tools []) ''/music'' start))) ''/music/converted_to_mp3/d.mp3'' = None
   \<and> lookup (fs (snd (main (mock_tools []) ''/music'' start))) ''/music/converted_to_mp3/d.txt'' = None"
  unfolding scenario_four_files by code_simp

section \<open>Paths derived from the entry name\<close>

lemma rfind_absent: "c \<notin> set s \<Longrightarrow> rfind s c = - 1"
  by (simp add: rfind_def)

lemma rfind_last:
  assumes "c \<notin> set r"
  shows "rfind (b @ c # r) c = int (length b)"
proof -
  have a: "\<And>x. x \<in> set (rev r) \<Longrightarrow> x \<noteq> c"
    using assms by auto
  have "takeWhile (\<lambda>x. x \<noteq> c) (rev r @ c # rev b)
          = rev r @ takeWhile (\<lambda>x. x \<noteq> c) (c # rev b)"
    by (rule takeWhile_append2) (rule a)
  then have "takeWhile (\<lambda>x. x \<noteq> c) (rev r @ c # rev b) = rev r"
    by simp
  then show ?thesis
    by (simp add: rfind_def)
qed





lemma convert_audio_not_sniffed:
  assumes "returned t [''file'', ''-b'', i] (fs w) = None"
  shows "trace (snd (convert_audio t i out w)) = trace w @ [Run [''file'', ''-b'', i]]"
proof -
  obtain e f' where
    "subprocess_run t [''file'', ''-b'', i] w =
       (Inl e, w\<lparr>fs := f', trace := trace w @ [Run [''file'', ''-b'', i]]\<rparr>)"
    using subprocess_run_None [OF assms] by auto
  then show ?thesis
    by (simp add: convert_audio_def)
qed






section \<open>The output folder\<close>

lemma mp3_folder_shape: "\<exists>x. join folder ''converted_to_mp3'' = x @ ''converted_to_mp3''"
  by (simp add: join_def startswith_def)

lemma mp3_folder_no_slash_end: "\<not> endswith (join folder ''converted_to_mp3'') ''/''"
proof -
  obtain x where x: "join folder ''converted_to_mp3'' = x @ ''converted_to_mp3''"
    using mp3_folder_shape by blast
  have "\<not> suffix ([] @ [CHR ''/'']) ((x @ ''converted_to_mp'') @ [CHR ''3''])"
    unfolding snoc_suffix_snoc by simp
  then show ?thesis
    unfolding endswith_def x by simp
qed

lemma mp3_folder_not_empty: "join folder ''converted_to_mp3'' \<noteq> []"
  using mp3_folder_shape [of folder] by auto

lemma join_mp3_folder:
  assumes "CHR ''/'' \<notin> set base"
  shows "join (join folder ''converted_to_mp3'') (base @ ''.mp3'')
           = join folder ''converted_to_mp3'' @ ''/'' @ base @ ''.mp3''"
proof -
  have "\<not> startswith (base @ ''.mp3'') ''/''"
    using assms by (cases base) (simp_all add: startswith_def)
  then show ?thesis
    using mp3_folder_no_slash_end [of folder] mp3_folder_not_empty [of folder]
    by (simp add: join_def)
qed

lemma splitext_fst_subset: "set (fst (splitext n)) \<subseteq> set n"
  by (auto simp: splitext_def Let_def dest: in_set_takeD)

lemma child_name_no_slash:
  "child_name folder p = Some nm \<Longrightarrow> CHR ''/'' \<notin> set nm \<and> nm \<noteq> []"
  by (auto simp: child_name_def Let_def split: if_splits)

lemma scandir_names:
  assumes "scandir f folder = Inr entries" and "e \<in> set entries"
  shows "CHR ''/'' \<notin> set (name e) \<and> name e \<noteq> [] \<and> path e = join folder (name e)"
proof -
  let ?g = "\<lambda>(p, n). case child_name folder p of
              None \<Rightarrow> []
            | Some nm \<Rightarrow> [\<lparr>name = nm, path = join folder nm,
                            is_file = (case n of RegFile _ \<Rightarrow> True | Directory \<Rightarrow> False)\<rparr>]"
  have "entries = concat (map ?g (AList.clearjunk f))"
    using assms(1) by (simp add: scandir_def split: option.splits node.splits)
  with assms(2) obtain p n where "e \<in> set (?g (p, n))"
    by auto
  then obtain nm where "child_name folder p = Some nm" "name e = nm" "path e = join folder nm"
    by (cases "child_name folder p") auto
  then show ?thesis
    using child_name_no_slash by simp
qed

lemma basename_join:
  assumes "nm \<noteq> []" and "CHR ''/'' \<notin> set nm"
  shows "basename (join folder nm) = nm"
proof -
  have ns: "\<not> startswith nm ''/''"
    using assms by (cases nm) (simp_all add: startswith_def)
  have "join folder nm = nm \<or> (\<exists>x. join folder nm = x @ CHR ''/'' # nm)"
  proof (cases "folder = []")
    case True
    with ns show ?thesis by (simp add: join_def)
  next
    case False
    show ?thesis
    proof (cases "endswith folder ''/''")
      case True
      then obtain zs where "folder = zs @ ''/''"
        by (auto simp: endswith_def suffix_def)
      with ns True show ?thesis by (simp add: join_def)
    next
      case False
      with ns \<open>folder \<noteq> []\<close> show ?thesis by (simp add: join_def)
    qed
  qed
  then consider "join folder nm = nm" | x where "join folder nm = x @ CHR ''/'' # nm"
    by blast
  then show ?thesis
  proof cases
    case 1
    then show ?thesis
      using assms(2) by (simp add: basename_def split_path_def rfind_absent)
  next
    case 2
    have "nat (int (length x) + 1) - length x = Suc 0"
      by arith
    with 2 show ?thesis
      using rfind_last [OF assms(2), of x] by (simp add: basename_def split_path_def Let_def)
  qed
qed

lemma join_below_output:
  assumes "nm \<noteq> []" and "CHR ''/'' \<notin> set nm"
  shows "join (x @ ''.mp3'') nm = x @ ''.mp3'' @ ''/'' @ nm"
proof -
  have "\<not> startswith nm ''/''"
    using assms by (cases nm) (simp_all add: startswith_def)
  moreover have "\<not> suffix ([] @ [CHR ''/'']) ((x @ ''.mp'') @ [CHR ''3''])"
    unfolding snoc_suffix_snoc by simp
  then have "\<not> endswith (x @ ''.mp3'') ''/''"
    by (simp add: endswith_def)
  ultimately show ?thesis
    by (simp add: join_def)
qed

lemma quiet_targets: "quiet tmp e \<Longrightarrow> set (targets e) \<subseteq> {tmp}"
  by (cases e) (simp_all add: quiet_def)

lemma branch_shape_targets:
  assumes "branch_shape b i out es" and "e \<in> set es"
  shows "set (targets e) \<subseteq> {out, out @ ''.temp.wav'', join out (basename i)}"
proof (cases "decoder_argv b i (out @ ''.temp.wav'')")
  case None
  with assms show ?thesis
    by (auto simp: branch_shape_def split: if_splits)
next
  case (Some argv)
  then have argv: "targets (Run argv) = [out @ ''.temp.wav'']"
    by (cases b) auto
  have lame: "targets (Run (lame_argv (out @ ''.temp.wav'') out)) = [out]"
    by (simp add: lame_argv_def)
  from assms Some obtain rest where rest: "es = Run argv # rest"
    "rest = [] \<or> (\<exists>m. rest = [Print m]) \<or>
       (\<exists>qs. rest = Run (lame_argv (out @ ''.temp.wav'') out) # qs \<and> list_all (quiet (out @ ''.temp.wav'')) qs)"
    by (auto simp: branch_shape_def)
  from rest(2) have "\<forall>e \<in> set rest. set (targets e) \<subseteq> {out, out @ ''.temp.wav''}"
  proof (elim disjE exE conjE)
    fix qs
    assume qs: "rest = Run (lame_argv (out @ ''.temp.wav'') out) # qs"
      "list_all (quiet (out @ ''.temp.wav'')) qs"
    have "\<forall>e \<in> set qs. set (targets e) \<subseteq> {out @ ''.temp.wav''}"
      using qs(2) quiet_targets unfolding list_all_iff by blast
    then have "\<forall>e \<in> set qs. set (targets e) \<subseteq> {out, out @ ''.temp.wav''}"
      by blast
    with qs(1) lame show ?thesis by simp
  qed simp_all
  with rest(1) argv assms(2) show ?thesis
    by auto
qed

lemma convert_audio_targets:
  "\<exists>es. trace (snd (convert_audio t i out w)) = trace w @ es
        \<and> (\<forall>e \<in> set es. set (targets e) \<subseteq> {out, out @ ''.temp.wav'', join out (basename i)})"
proof (cases "returned t [''file'', ''-b'', i] (fs w)")
  case None
  then have "trace (snd (convert_audio t i out w)) = trace w @ [Run [''file'', ''-b'', i]]"
    by (rule convert_audio_not_sniffed)
  then show ?thesis by simp
next
  case (Some sf)
  obtain s f1 where "sf = (s, f1)" by (cases sf)
  with Some have sniff: "returned t [''file'', ''-b'', i] (fs w) = Some (s, f1)" by simp
  obtain es where es: "trace (snd (convert_audio t i out w)) = trace w @ Run [''file'', ''-b'', i] # es"
    "branch_shape (priority_branch (stdout s)) i out es"
    using convert_audio_shape [where t = t and w = w, OF sniff] by blast
  have "\<forall>e \<in> set (Run [''file'', ''-b'', i] # es).
          set (targets e) \<subseteq> {out, out @ ''.temp.wav'', join out (basename i)}"
    using branch_shape_targets [OF es(2)] by simp
  with es(1) show ?thesis by blast
qed

lemma process_entry_targets:
  "\<exists>es. trace (snd (process_entry t mp3_folder entry w)) = trace w @ es
        \<and> (\<forall>e \<in> set es. set (targets e) \<subseteq>
              {join mp3_folder (fst (splitext (name entry)) @ ''.mp3''),
               join mp3_folder (fst (splitext (name entry)) @ ''.mp3'') @ ''.temp.wav'',
               join (join mp3_folder (fst (splitext (name entry)) @ ''.mp3'')) (basename (path entry))})"
proof (cases "\<not> startswith (name entry) ''.'' \<and> is_file entry
              \<and> snd (splitext (name entry)) \<in> set extensions")
  case True
  then show ?thesis
    using process_entry_dispatched [of entry t mp3_folder w] convert_audio_targets by simp
next
  case False
  then have "trace (snd (process_entry t mp3_folder entry w)) = trace w
           \<or> trace (snd (process_entry t mp3_folder entry w)) = trace w @ [Print (''Skipping '' @ name entry)]"
    by (cases "splitext (name entry)") (auto simp: process_entry_def print_def)
  then show ?thesis
    by auto
qed

lemma scan_loop_targets:
  "\<exists>es. trace (snd (scan_loop t mp3_folder entries w)) = trace w @ es
        \<and> (\<forall>e \<in> set es. \<forall>p \<in> set (targets e). \<exists>entry \<in> set entries.
              p = join mp3_folder (fst (splitext (name entry)) @ ''.mp3'')
              \<or> p = join mp3_folder (fst (splitext (name entry)) @ ''.mp3'') @ ''.temp.wav''
              \<or> p = join (join mp3_folder (fst (splitext (name entry)) @ ''.mp3'')) (basename (path entry)))"
proof (induction entries arbitrary: w)
  case Nil
  show ?case by simp
next
  case (Cons entry entries)
  obtain r w' where pe: "process_entry t mp3_folder entry w = (r, w')"
    by (cases "process_entry t mp3_folder entry w")
  obtain es1 where es1: "trace w' = trace w @ es1"
    "\<forall>e \<in> set es1. set (targets e) \<subseteq>
              {join mp3_folder (fst (splitext (name entry)) @ ''.mp3''),
               join mp3_folder (fst (splitext (name entry)) @ ''.mp3'') @ ''.temp.wav'',
               join (join mp3_folder (fst (splitext (name entry)) @ ''.mp3'')) (basename (path entry))}"
    using process_entry_targets [of t mp3_folder entry w] pe by auto
  show ?case
  proof (cases r)
    case (Inl err)
    with pe have "trace (snd (scan_loop t mp3_folder (entry # entries) w)) = trace w @ es1"
      using es1(1) by simp
    moreover have "\<forall>e \<in> set es1. \<forall>p \<in> set (targets e). \<exists>x \<in> set (entry # entries).
              p = join mp3_folder (fst (splitext (name x)) @ ''.mp3'')
              \<or> p = join mp3_folder (fst (splitext (name x)) @ ''.mp3'') @ ''.temp.wav''
              \<or> p = join (join mp3_folder (fst (splitext (name x)) @ ''.mp3'')) (basename (path x))"
      using es1(2) by fastforce
    ultimately show ?thesis by blast
  next
    case (Inr u)
    obtain es2 where es2: "trace (snd (scan_loop t mp3_folder entries w')) = trace w' @ es2"
      "\<forall>e \<in> set es2. \<forall>p \<in> set (targets e). \<exists>x \<in> set entries.
              p = join mp3_folder (fst (splitext (name x)) @ ''.mp3'')
              \<or> p = join mp3_folder (fst (splitext (name x)) @ ''.mp3'') @ ''.temp.wav''
              \<or> p = join (join mp3_folder (fst (splitext (name x)) @ ''.mp3'')) (basename (path x))"
      using Cons.IH [of w'] by blast
    from pe Inr have "trace (snd (scan_loop t mp3_folder (entry # entries) w)) = trace w @ (es1 @ es2)"
      using es1(1) es2(1) by simp
    moreover have "\<forall>e \<in> set (es1 @ es2). \<forall>p \<in> set (targets e). \<exists>x \<in> set (entry # entries).
              p = join mp3_folder (fst (splitext (name x)) @ ''.mp3'')
              \<or> p = join mp3_folder (fst (splitext (name x)) @ ''.mp3'') @ ''.temp.wav''
              \<or> p = join (join mp3_folder (fst (splitext (name x)) @ ''.mp3'')) (basename (path x))"
    proof (intro ballI)
      fix e p assume e: "e \<in> set (es1 @ es2)" and p: "p \<in> set (targets e)"
      from e consider "e \<in> set es1" | "e \<in> set es2" by auto
      then show "\<exists>x \<in> set (entry # entries).
              p = join mp3_folder (fst (splitext (name x)) @ ''.mp3'')
              \<or> p = join mp3_folder (fst (splitext (name x)) @ ''.mp3'') @ ''.temp.wav''
              \<or> p = join (join mp3_folder (fst (splitext (name x)) @ ''.mp3'')) (basename (path x))"
      proof cases
        case 1
        with es1(2) p show ?thesis by fastforce
      next
        case 2
        with es2(2) p show ?thesis by fastforce
      qed
    qed
    ultimately show ?thesis by blast
  qed
qed

lemma map_of_new_directories:
  "map_of [(a, Directory). a \<leftarrow> xs, P a] p = (if p \<in> set xs \<and> P p then Some Directory else None)"
  by (induction xs) auto

lemma os_makedirs_creates:
  assumes "lookup (fs w) p = None"
    and "\<not> list_ex (\<lambda>a. case lookup (fs w) a of Some (RegFile _) \<Rightarrow> True | _ \<Rightarrow> False) (ancestors p)"
  shows "\<exists>w1. os_makedirs p w = (Inr (), w1) \<and> trace w1 = trace w @ [Makedirs p]
             \<and> isdir (fs w1) p
             \<and> (\<forall>q. lookup (fs w) q \<noteq> None \<longrightarrow> lookup (fs w1) q = lookup (fs w) q)"
proof -
  define new where "new = [(a, Directory). a \<leftarrow> ancestors p @ [p], lookup (fs w) a = None]"
  let ?w1 = "w\<lparr>trace := trace w @ [Makedirs p], fs := fs w @ new\<rparr>"
  have eq: "os_makedirs p w = (Inr (), ?w1)"
    using assms by (simp add: os_makedirs_def Let_def new_def)
  have root: "p \<noteq> ''/''"
    using assms(1) by (auto simp: lookup_def)
  then have none: "map_of (fs w) p = None"
    using assms(1) by (simp add: lookup_def)
  have "map_of new p = Some Directory"
    unfolding new_def using assms(1) by (simp only: map_of_new_directories) simp
  then have dir: "isdir (fs ?w1) p"
    using root none by (simp add: isdir_def lookup_def map_add_def)
  have keep: "lookup (fs ?w1) q = lookup (fs w) q" if "lookup (fs w) q \<noteq> None" for q
  proof (cases "q = ''/''")
    case True
    then show ?thesis by (simp add: lookup_def)
  next
    case False
    with that obtain v where "map_of (fs w) q = Some v"
      by (auto simp: lookup_def)
    then show ?thesis
      using False by (simp add: lookup_def map_add_def)
  qed
  show ?thesis
    using eq dir keep by simp
qed

lemma make_mp3_folder_reuses:
  assumes "isdir (fs w) (join folder ''converted_to_mp3'')"
  shows "make_mp3_folder folder w =
           (Inr (join folder ''converted_to_mp3''),
            print (''Converting all audios in '' @ folder @ '': Saving MP3 files to ''
                   @ join folder ''converted_to_mp3'') w)"
  using assms by (simp add: make_mp3_folder_def Let_def print_fs)

lemma make_mp3_folder_creates:
  assumes "lookup (fs w) (join folder ''converted_to_mp3'') = None"
    and "\<not> list_ex (\<lambda>a. case lookup (fs w) a of Some (RegFile _) \<Rightarrow> True | _ \<Rightarrow> False)
             (ancestors (join folder ''converted_to_mp3''))"
  shows "\<exists>w1. make_mp3_folder folder w = (Inr (join folder ''converted_to_mp3''), w1)
             \<and> isdir (fs w1) (join folder ''converted_to_mp3'')
             \<and> (\<forall>q. lookup (fs w) q \<noteq> None \<longrightarrow> lookup (fs w1) q = lookup (fs w) q)"
proof -
  let ?mp3 = "join folder ''converted_to_mp3''"
  let ?w0 = "print (''Converting all audios in '' @ folder @ '': Saving MP3 files to '' @ ?mp3) w"
  have a: "lookup (fs ?w0) ?mp3 = None"
    "\<not> list_ex (\<lambda>a. case lookup (fs ?w0) a of Some (RegFile _) \<Rightarrow> True | _ \<Rightarrow> False) (ancestors ?mp3)"
    using assms by (simp_all add: print_fs)
  obtain w1 where w1: "os_makedirs ?mp3 ?w0 = (Inr (), w1)" "isdir (fs w1) ?mp3"
    "\<forall>q. lookup (fs ?w0) q \<noteq> None \<longrightarrow> lookup (fs w1) q = lookup (fs ?w0) q"
    using os_makedirs_creates [OF a] by blast
  have "\<not> isdir (fs ?w0) ?mp3"
    using a(1) by (simp add: isdir_def)
  then have "make_mp3_folder folder w = (Inr ?mp3, w1)"
    using w1(1) by (simp add: make_mp3_folder_def Let_def)
  with w1(2,3) show ?thesis
    by (simp add: print_fs)
qed

lemma os_makedirs_trace: "trace (snd (os_makedirs p w)) = trace w @ [Makedirs p]"
  by (simp add: os_makedirs_def Let_def)

lemma make_mp3_folder_trace:
  "\<exists>es. trace (snd (make_mp3_folder folder w)) = trace w @ es
        \<and> (\<forall>e \<in> set es. set (targets e) \<subseteq> {join folder ''converted_to_mp3''})"
proof (cases "isdir (fs w) (join folder ''converted_to_mp3'')")
  case True
  then show ?thesis
    by (simp add: make_mp3_folder_reuses print_def)
next
  case False
  let ?mp3 = "join folder ''converted_to_mp3''"
  let ?w0 = "print (''Converting all audios in '' @ folder @ '': Saving MP3 files to '' @ ?mp3) w"
  have "trace (snd (make_mp3_folder folder w)) = trace (snd (os_makedirs ?mp3 ?w0))"
    using False by (simp add: make_mp3_folder_def Let_def print_fs split: prod.splits sum.splits)
  then show ?thesis
    by (simp add: os_makedirs_trace print_def)
qed

lemma make_mp3_folder_value:
  "make_mp3_folder folder w = (Inr x, w2) \<Longrightarrow> x = join folder ''converted_to_mp3''"
  by (auto simp: make_mp3_folder_def Let_def split: if_splits prod.splits sum.splits)

lemma main_targets:
  assumes e: "e \<in> set (since w (snd (main t folder w)))" and p: "p \<in> set (targets e)"
  shows "p = join folder ''converted_to_mp3''
       \<or> (\<exists>entry \<in> set (listing (fs (snd (make_mp3_folder folder w))) folder).
             p = join folder ''converted_to_mp3'' @ ''/'' @ fst (splitext (name entry)) @ ''.mp3''
           \<or> p = join folder ''converted_to_mp3'' @ ''/'' @ fst (splitext (name entry)) @ ''.mp3'' @ ''.temp.wav''
           \<or> p = join folder ''converted_to_mp3'' @ ''/'' @ fst (splitext (name entry)) @ ''.mp3'' @ ''/'' @ name entry)"
proof -
  let ?mp3 = "join folder ''converted_to_mp3''"
  obtain r w2 where mk: "make_mp3_folder folder w = (r, w2)"
    by (cases "make_mp3_folder folder w")
  obtain es0 where es0: "trace w2 = trace w @ es0" "\<forall>e \<in> set es0. set (targets e) \<subseteq> {?mp3}"
    using make_mp3_folder_trace [of folder w] mk by auto
  show ?thesis
  proof (cases "\<exists>entries. r = Inr ?mp3 \<and> scandir (fs w2) folder = Inr entries")
    case False
    then have "snd (main t folder w) = w2"
      using mk make_mp3_folder_value [of folder w _ w2]
      by (cases r; cases "scandir (fs w2) folder") (auto simp: main_def)
    then have "since w (snd (main t folder w)) = es0"
      using es0(1) by (simp add: since_append)
    with e p es0(2) show ?thesis by auto
  next
    case True
    then obtain entries where r: "r = Inr ?mp3" and sc: "scandir (fs w2) folder = Inr entries"
      by blast
    have lst: "listing (fs (snd (make_mp3_folder folder w))) folder = entries"
      using mk sc by (simp add: listing_def)
    obtain es1 where es1: "trace (snd (scan_loop t ?mp3 entries w2)) = trace w2 @ es1"
      "\<forall>e \<in> set es1. \<forall>p \<in> set (targets e). \<exists>entry \<in> set entries.
              p = join ?mp3 (fst (splitext (name entry)) @ ''.mp3'')
              \<or> p = join ?mp3 (fst (splitext (name entry)) @ ''.mp3'') @ ''.temp.wav''
              \<or> p = join (join ?mp3 (fst (splitext (name entry)) @ ''.mp3'')) (basename (path entry))"
      using scan_loop_targets by blast
    have "snd (main t folder w) = snd (scan_loop t ?mp3 entries w2)"
      using mk r sc by (simp add: main_def)
    then have "since w (snd (main t folder w)) = es0 @ es1"
      using es0(1) es1(1) by (simp add: since_append)
    with e consider "e \<in> set es0" | "e \<in> set es1" by auto
    then show ?thesis
    proof cases
      case 1
      with p es0(2) show ?thesis by auto
    next
      case 2
      with p es1(2) obtain entry where entry: "entry \<in> set entries"
        "p = join ?mp3 (fst (splitext (name entry)) @ ''.mp3'')
         \<or> p = join ?mp3 (fst (splitext (name entry)) @ ''.mp3'') @ ''.temp.wav''
         \<or> p = join (join ?mp3 (fst (splitext (name entry)) @ ''.mp3'')) (basename (path entry))"
        by blast
      note nm = scandir_names [OF sc entry(1)]
      have "CHR ''/'' \<notin> set (fst (splitext (name entry)))"
        using nm splitext_fst_subset [of "name entry"] by blast
      then have out: "join ?mp3 (fst (splitext (name entry)) @ ''.mp3'')
                   = ?mp3 @ ''/'' @ fst (splitext (name entry)) @ ''.mp3''"
        by (rule join_mp3_folder)
      have "basename (path entry) = name entry"
        using nm basename_join [of "name entry" folder] by simp
      moreover have "join ((?mp3 @ ''/'' @ fst (splitext (name entry))) @ ''.mp3'') (name entry)
                   = (?mp3 @ ''/'' @ fst (splitext (name entry))) @ ''.mp3'' @ ''/'' @ name entry"
        using nm by (intro join_below_output) simp_all
      ultimately have "join (join ?mp3 (fst (splitext (name entry)) @ ''.mp3'')) (basename (path entry))
                   = ?mp3 @ ''/'' @ fst (splitext (name entry)) @ ''.mp3'' @ ''/'' @ name entry"
        unfolding out by simp
      with entry out show ?thesis
        unfolding lst by auto
    qed
  qed
qed


text \<open>
  Claim C7 says that each output file is named by the base name of its input and
  \<^verbatim>\<open>.mp3\<close>. Where the output folder holds a directory of that name, the run ends
  normally and the one file it writes is \<^verbatim>\<open>x.ogg\<close> inside that directory.
\<close>

theorem output_named_after_the_input:
  "fst (main (mock_tools []) ''/music'' occupied) = Inr ()
   \<and> concat (map targets (since occupied (snd (main (mock_tools []) ''/music'' occupied))))
       = [''/music/converted_to_mp3/x.mp3/x.ogg'']
   \<and> lookup (fs (snd (main (mock_tools []) ''/music'' occupied))) ''/music/converted_to_mp3/x.mp3/x.ogg''
       = Some (RegFile ''MPEG ADTS, layer III, v1, 128 kbps, 44.1 kHz, Stereo'')
   \<and> lookup (fs (snd (main (mock_tools []) ''/music'' occupied))) ''/music/converted_to_mp3/x.mp3''
       = Some Directory"
  by code_simp

text \<open>
  Claim C7, amended. Let the output folder be \<open>folder\<close> joined with \<^verbatim>\<open>converted_to_mp3\<close>,
  which is \<open>folder\<close> followed by \<^verbatim>\<open>/converted_to_mp3\<close> for a folder that does not end
  with a slash. When the output folder is a directory already, the script announces
  it and leaves the file system as it is. When the path is absent and nothing above it
  is a regular file, the script creates the directory and every path that existed
  keeps its content. In every run, the target of each effect (the output argument of
  a command, the file a copy writes, the path removed, the directory asked for) is
  the output folder itself, or for some entry of the listed
  folder the output path (the output folder, a slash, the base name of the entry and
  \<^verbatim>\<open>.mp3\<close>), or the output path followed by \<^verbatim>\<open>.temp.wav\<close>, or the file of the entry's
  own name inside the output path, which a copy writes when the output path is a
  directory.
\<close>

theorem outputs_under_converted_to_mp3:
  assumes "mp3_folder = join folder ''converted_to_mp3''"
  shows "(folder \<noteq> [] \<and> \<not> endswith folder ''/'' \<longrightarrow> mp3_folder = folder @ ''/converted_to_mp3'')
       \<and> (isdir (fs w) mp3_folder \<longrightarrow>
            make_mp3_folder folder w =
              (Inr mp3_folder,
               print (''Converting all audios in '' @ folder @ '': Saving MP3 files to '' @ mp3_folder) w))
       \<and> (lookup (fs w) mp3_folder = None
          \<and> \<not> list_ex (\<lambda>a. case lookup (fs w) a of Some (RegFile _) \<Rightarrow> True | _ \<Rightarrow> False)
                 (ancestors mp3_folder) \<longrightarrow>
            (\<exists>w1. make_mp3_folder folder w = (Inr mp3_folder, w1) \<and> isdir (fs w1) mp3_folder
                 \<and> (\<forall>q. lookup (fs w) q \<noteq> None \<longrightarrow> lookup (fs w1) q = lookup (fs w) q)))
       \<and> (\<forall>e \<in> set (since w (snd (main t folder w))). \<forall>p \<in> set (targets e).
            p = mp3_folder
            \<or> (\<exists>entry \<in> set (listing (fs (snd (make_mp3_folder folder w))) folder).
                  p = mp3_folder @ ''/'' @ fst (splitext (name entry)) @ ''.mp3''
                \<or> p = mp3_folder @ ''/'' @ fst (splitext (name entry)) @ ''.mp3'' @ ''.temp.wav''
                \<or> p = mp3_folder @ ''/'' @ fst (splitext (name entry)) @ ''.mp3'' @ ''/'' @ name entry))"
proof (intro conjI impI ballI)
  assume "folder \<noteq> [] \<and> \<not> endswith folder ''/''"
  then show "mp3_folder = folder @ ''/converted_to_mp3''"
    unfolding assms by (simp add: join_def startswith_def)
next
  assume "isdir (fs w) mp3_folder"
  then show "make_mp3_folder folder w =
              (Inr mp3_folder,
               print (''Converting all audios in '' @ folder @ '': Saving MP3 files to '' @ mp3_folder) w)"
    unfolding assms by (rule make_mp3_folder_reuses)
next
  assume "lookup (fs w) mp3_folder = None
          \<and> \<not> list_ex (\<lambda>a. case lookup (fs w) a of Some (RegFile _) \<Rightarrow> True | _ \<Rightarrow> False)
                 (ancestors mp3_folder)"
  then show "\<exists>w1. make_mp3_folder folder w = (Inr mp3_folder, w1) \<and> isdir (fs w1) mp3_folder
                 \<and> (\<forall>q. lookup (fs w) q \<noteq> None \<longrightarrow> lookup (fs w1) q = lookup (fs w) q)"
    unfolding assms using make_mp3_folder_creates [of w folder] by blast
next
  fix e p
  assume "e \<in> set (since w (snd (main t folder w)))" and "p \<in> set (targets e)"
  then show "p = mp3_folder
            \<or> (\<exists>entry \<in> set (listing (fs (snd (make_mp3_folder folder w))) folder).
                  p = mp3_folder @ ''/'' @ fst (splitext (name entry)) @ ''.mp3''
                \<or> p = mp3_folder @ ''/'' @ fst (splitext (name entry)) @ ''.mp3'' @ ''.temp.wav''
                \<or> p = mp3_folder @ ''/'' @ fst (splitext (name entry)) @ ''.mp3'' @ ''/'' @ name entry)"
    unfolding assms by (rule main_targets)
qed

text \<open>
  The double on the scenario: the staged folder is reused, the fresh one gets its
  output folder and keeps \<^verbatim>\<open>b.ogg\<close>; the copy of \<^verbatim>\<open>x.ogg\<close> writes its output path;
  and the run on the scenario touches the output folder and the outputs and
  intermediate files of \<^verbatim>\<open>b.ogg\<close> and \<^verbatim>\<open>c.m4a\<close> only.
\<close>

theorem outputs_under_converted_to_mp3_witness:
  "make_mp3_folder ''/music'' staged =
     (Inr ''/music/converted_to_mp3'',
      print ''Converting all audios in /music: Saving MP3 files to /music/converted_to_mp3'' staged)
   \<and> isdir (fs (snd (make_mp3_folder ''/music'' start))) ''/music/converted_to_mp3''
   \<and> lookup (fs (snd (make_mp3_folder ''/music'' start))) ''/music/b.ogg'' = lookup (fs start) ''/music/b.ogg''
   \<and> concat (map targets (since oddities (snd (main (mock_tools []) ''/music'' oddities))))
       = [''/music/converted_to_mp3/x.mp3'']
   \<and> concat (map targets (since start (snd (main (mock_tools []) ''/music'' start))))
       = [''/music/converted_to_mp3'',
          ''/music/converted_to_mp3/b.mp3.temp.wav'', ''/music/converted_to_mp3/b.mp3'',
          ''/music/converted_to_mp3/b.mp3.temp.wav'',
          ''/music/converted_to_mp3/c.mp3.temp.wav'', ''/music/converted_to_mp3/c.mp3'',
          ''/music/converted_to_mp3/c.mp3.temp.wav'']"
proof -
  let ?mp3 = "''/music/converted_to_mp3''"
  have m: "?mp3 = join ''/music'' ''converted_to_mp3''"
    by code_simp
  have present: "isdir (fs staged) ?mp3"
    by code_simp
  have absent: "lookup (fs start) ?mp3 = None
          \<and> \<not> list_ex (\<lambda>a. case lookup (fs start) a of Some (RegFile _) \<Rightarrow> True | _ \<Rightarrow> False)
                 (ancestors ?mp3)"
    by code_simp
  have there: "lookup (fs start) ''/music/b.ogg'' \<noteq> None"
    by code_simp
  have tg': "concat (map targets (since oddities (snd (main (mock_tools []) ''/music'' oddities))))
       = [''/music/converted_to_mp3/x.mp3'']"
    by code_simp
  have tg: "concat (map targets (since start (snd (main (mock_tools []) ''/music'' start))))
       = [''/music/converted_to_mp3'',
          ''/music/converted_to_mp3/b.mp3.temp.wav'', ''/music/converted_to_mp3/b.mp3'',
          ''/music/converted_to_mp3/b.mp3.temp.wav'',
          ''/music/converted_to_mp3/c.mp3.temp.wav'', ''/music/converted_to_mp3/c.mp3'',
          ''/music/converted_to_mp3/c.mp3.temp.wav'']"
    by code_simp
  have reuse: "make_mp3_folder ''/music'' staged =
     (Inr ?mp3, print ''Converting all audios in /music: Saving MP3 files to /music/converted_to_mp3'' staged)"
    using outputs_under_converted_to_mp3 [OF m, where w = staged and t = "mock_tools []"] present
    by simp
  obtain w1 where w1: "make_mp3_folder ''/music'' start = (Inr ?mp3, w1)" "isdir (fs w1) ?mp3"
    "\<forall>q. lookup (fs start) q \<noteq> None \<longrightarrow> lookup (fs w1) q = lookup (fs start) q"
    using outputs_under_converted_to_mp3 [OF m, where w = start and t = "mock_tools []"] absent
    by blast
  show ?thesis
    using reuse w1 there tg tg' by simp
qed

end
